theory Spec2Isabelle
  imports Complex_Main
begin

section \<open>Rendering of Escher maps: a model of \<^verbatim>\<open>mosmo/preso/escher/escher_map.py\<close>\<close>

text \<open>
  Numbers: Python's \<^verbatim>\<open>float\<close> and \<^verbatim>\<open>int\<close> values are modelled by \<^typ>\<open>real\<close> and
  \<^typ>\<open>int\<close>. There are no infinities and no NaN: a \<^verbatim>\<open>float\<close> of the source is a finite
  binary64 number. The arithmetic of interpolation and geometry is written with the
  operations of \<^typ>\<open>real\<close>, in the order of the source. Where a result is truncated to an
  integer, in \<open>Color_str\<close>, the rounding of the binary64 sum is modelled (\<open>b64_round\<close>).
  Strings are lists of \<^typ>\<open>char\<close>, read as code points below 256.
  Every exception the source can raise is a value of \<open>py_error\<close>, and a function that
  can raise returns \<open>py_error + 'a\<close>.
\<close>

datatype py_error =
  ValueError | AttributeError | KeyError | IndexError | UnboundLocalError
  | ZeroDivisionError | TypeError

subsection \<open>\<^verbatim>\<open>int(s, 16)\<close>\<close>

text \<open>
  \<^verbatim>\<open>int(s, 16)\<close> on a string: surrounding white space is skipped, one sign is read, then
  an optional \<^verbatim>\<open>0x\<close> prefix (which may be followed by one underscore), then hexadecimal
  digits with single underscores between them. Anything else is a \<^verbatim>\<open>ValueError\<close>.
\<close>

definition py_isspace :: "char \<Rightarrow> bool" where
  "py_isspace c \<longleftrightarrow> (of_char c :: nat) \<in> set [9, 10, 11, 12, 13, 32, 133, 160]"

definition digit_value :: "char \<Rightarrow> nat" where
  "digit_value c =
     (let n = (of_char c :: nat) in
      if 48 \<le> n \<and> n \<le> 57 then n - 48
      else if 97 \<le> n \<and> n \<le> 122 then n - 87
      else if 65 \<le> n \<and> n \<le> 90 then n - 55
      else 37)"

fun scan_digits :: "char \<Rightarrow> nat \<Rightarrow> nat \<Rightarrow> string \<Rightarrow> (nat \<times> nat \<times> char \<times> string) option" where
  "scan_digits prev acc n [] = Some (acc, n, prev, [])"
| "scan_digits prev acc n (c # cs) =
     (if c = CHR ''_'' then (if prev = CHR ''_'' then None else scan_digits c acc n cs)
      else if digit_value c < 16 then scan_digits c (16 * acc + digit_value c) (n + 1) cs
      else Some (acc, n, prev, c # cs))"

definition read_sign :: "string \<Rightarrow> bool \<times> string" where
  "read_sign s =
     (case s of
        [] \<Rightarrow> (False, [])
      | c # cs \<Rightarrow> if c = CHR ''+'' then (False, cs)
                 else if c = CHR ''-'' then (True, cs)
                 else (False, c # cs))"

definition skip_prefix :: "string \<Rightarrow> string" where
  "skip_prefix s =
     (case s of
        c0 # c1 # cs \<Rightarrow>
          if c0 = CHR ''0'' \<and> (c1 = CHR ''x'' \<or> c1 = CHR ''X'')
          then (case cs of [] \<Rightarrow> [] | u # us \<Rightarrow> if u = CHR ''_'' then us else u # us)
          else s
      | _ \<Rightarrow> s)"

definition py_int16 :: "string \<Rightarrow> py_error + int" where
  "py_int16 s =
     (let (neg, s2) = read_sign (dropWhile py_isspace s);
          s3 = skip_prefix s2
      in if s3 \<noteq> [] \<and> hd s3 = CHR ''_'' then Inl ValueError
         else case scan_digits (CHR 0x00) 0 0 s3 of
                None \<Rightarrow> Inl ValueError
              | Some (acc, n, prev, rest) \<Rightarrow>
                  if n = 0 \<or> prev = CHR ''_'' \<or> dropWhile py_isspace rest \<noteq> []
                  then Inl ValueError
                  else Inr (if neg then - int acc else int acc))"

subsection \<open>\<^verbatim>\<open>Color\<close>\<close>

datatype Color = Color (c_r: real) (c_g: real) (c_b: real)

definition startswith :: "string \<Rightarrow> string \<Rightarrow> bool" where
  "startswith s p \<longleftrightarrow> take (length p) s = p"

definition from_hex :: "string \<Rightarrow> py_error + Color" where
  "from_hex hexstr =
     (if startswith hexstr ''#'' \<and> length hexstr = 7 then
        (case py_int16 (take 2 (drop 1 hexstr)) of
           Inl e \<Rightarrow> Inl e
         | Inr r \<Rightarrow>
        (case py_int16 (take 2 (drop 3 hexstr)) of
           Inl e \<Rightarrow> Inl e
         | Inr g \<Rightarrow>
        (case py_int16 (drop 5 hexstr) of
           Inl e \<Rightarrow> Inl e
         | Inr b \<Rightarrow> Inr (Color (of_int r) (of_int g) (of_int b)))))
      else Inl ValueError)"

text \<open>
  Binary64 arithmetic rounds the exact result to the nearest number with a significand of
  53 bits, ties to even. \<open>b64_exponent y\<close> is the exponent of the unit in the last place at
  \<open>y\<close> (\<open>-1074\<close> in the subnormal range), and \<open>b64_round y\<close> is \<open>y\<close> rounded to a multiple of
  that unit. Results beyond the largest binary64 number do not occur below: a channel is a
  binary64 number, and adding one half to it does not overflow.
\<close>

definition round_half_even :: "real \<Rightarrow> int" where
  "round_half_even q =
     (let f = \<lfloor>q\<rfloor>; d = q - of_int f
      in if d < 1 / 2 then f else if 1 / 2 < d then f + 1 else if even f then f else f + 1)"

definition b64_exponent :: "real \<Rightarrow> int" where
  "b64_exponent y = max (\<lfloor>log 2 \<bar>y\<bar>\<rfloor> - 52) (- 1074)"

definition b64_round :: "real \<Rightarrow> real" where
  "b64_round y =
     (if y = 0 then 0
      else of_int (round_half_even (y / 2 powr of_int (b64_exponent y)))
             * 2 powr of_int (b64_exponent y))"

text \<open>\<^verbatim>\<open>int(x)\<close> on a float truncates towards zero.\<close>

definition py_trunc :: "real \<Rightarrow> int" where
  "py_trunc x = (if 0 \<le> x then \<lfloor>x\<rfloor> else \<lceil>x\<rceil>)"

text \<open>\<^verbatim>\<open>int(self.r + 0.5)\<close>: the sum is a binary64 sum.\<close>

definition channel_int :: "real \<Rightarrow> int" where
  "channel_int x = py_trunc (b64_round (x + 0.5))"

definition hex_digit :: "nat \<Rightarrow> char" where
  "hex_digit d = ''0123456789abcdef'' ! d"

fun hex_digits :: "nat \<Rightarrow> string" where
  "hex_digits n = (if n < 16 then [hex_digit n] else hex_digits (n div 16) @ [hex_digit (n mod 16)])"

declare hex_digits.simps [simp del]

text \<open>The format specification \<^verbatim>\<open>02x\<close>: sign, then zeros up to a total width of 2, then digits.\<close>

definition format_02x :: "int \<Rightarrow> string" where
  "format_02x n =
     (let sign = (if n < 0 then ''-'' else '''');
          ds = hex_digits (nat \<bar>n\<bar>)
      in sign @ replicate (2 - (length sign + length ds)) (CHR ''0'') @ ds)"

definition Color_str :: "Color \<Rightarrow> string" where
  "Color_str c =
     ''#'' @ format_02x (channel_int (c_r c)) @ format_02x (channel_int (c_g c))
          @ format_02x (channel_int (c_b c))"

definition Color_add :: "Color \<Rightarrow> Color \<Rightarrow> Color" where
  "Color_add c d = Color (c_r c + c_r d) (c_g c + c_g d) (c_b c + c_b d)"

definition Color_sub :: "Color \<Rightarrow> Color \<Rightarrow> Color" where
  "Color_sub c d = Color (c_r c - c_r d) (c_g c - c_g d) (c_b c - c_b d)"

definition Color_mul :: "Color \<Rightarrow> real \<Rightarrow> Color" where
  "Color_mul c factor = Color (c_r c * factor) (c_g c * factor) (c_b c * factor)"

definition Color_rmul :: "real \<Rightarrow> Color \<Rightarrow> Color" where
  "Color_rmul factor c = Color_mul c factor"

subsection \<open>\<^verbatim>\<open>Scale\<close>\<close>

text \<open>
  A stop is the tuple \<^verbatim>\<open>(value, color, size)\<close>. The argument of the constructor is the
  list of items of the \<^verbatim>\<open>stops\<close> mapping, in the mapping's order; the color of a stop is a
  string or \<^verbatim>\<open>None\<close>, and so is its size.
\<close>

type_synonym stop = "real \<times> Color option \<times> real option"

definition stop_value :: "stop \<Rightarrow> real" where
  "stop_value s = fst s"

definition stop_color :: "stop \<Rightarrow> Color option" where
  "stop_color s = fst (snd s)"

definition stop_size :: "stop \<Rightarrow> real option" where
  "stop_size s = snd (snd s)"

record Scale =
  stops :: "stop list"
  use_abs :: bool

text \<open>
  The value of a stop is a number: a NaN key, on which \<^verbatim>\<open>sorted\<close> has no defined order, is
  not a value of \<^typ>\<open>real\<close> and is outside the model.
  The generator inside \<^verbatim>\<open>sorted(...)\<close>: \<^verbatim>\<open>Color.from_hex(color)\<close> is called on every
  item in turn; on \<^verbatim>\<open>None\<close> the call \<^verbatim>\<open>hexstr.startswith\<close> raises \<^verbatim>\<open>AttributeError\<close>.
\<close>

fun convert_stops :: "(real \<times> string option \<times> real option) list \<Rightarrow> py_error + stop list" where
  "convert_stops [] = Inr []"
| "convert_stops ((v, color, sz) # rest) =
     (case color of
        None \<Rightarrow> Inl AttributeError
      | Some hexstr \<Rightarrow>
          (case from_hex hexstr of
             Inl e \<Rightarrow> Inl e
           | Inr c \<Rightarrow>
               (case convert_stops rest of
                  Inl e \<Rightarrow> Inl e
                | Inr ss \<Rightarrow> Inr ((v, Some c, sz) # ss))))"

definition Scale_init :: "(real \<times> string option \<times> real option) list \<Rightarrow> bool \<Rightarrow> py_error + Scale" where
  "Scale_init items ua =
     (case convert_stops items of
        Inl e \<Rightarrow> Inl e
      | Inr ss \<Rightarrow> Inr \<lparr>stops = sort_key stop_value ss, use_abs = ua\<rparr>)"

text \<open>
  The bracketing loop of \<^verbatim>\<open>style\<close>. \<open>ub\<close> is \<open>None\<close> as long as the loop variable has not
  been bound; when the loop runs to its end without \<^verbatim>\<open>break\<close>, \<open>lb\<close> and \<open>ub\<close> are both
  the last stop.
\<close>

fun bracket :: "stop \<Rightarrow> stop option \<Rightarrow> stop list \<Rightarrow> real \<Rightarrow> stop \<times> stop option" where
  "bracket lb ub [] v = (lb, ub)"
| "bracket lb ub (u # us) v =
     (if stop_value u \<ge> v then (lb, Some u) else bracket u (Some u) us v)"

text \<open>Truth values of \<^verbatim>\<open>lb[1]\<close> (a \<^verbatim>\<open>Color\<close> or \<^verbatim>\<open>None\<close>) and \<^verbatim>\<open>lb[2]\<close> (a number or \<^verbatim>\<open>None\<close>).\<close>

definition truthy_color :: "Color option \<Rightarrow> bool" where
  "truthy_color c \<longleftrightarrow> c \<noteq> None"

definition truthy_num :: "real option \<Rightarrow> bool" where
  "truthy_num x \<longleftrightarrow> (case x of None \<Rightarrow> False | Some y \<Rightarrow> y \<noteq> 0)"

definition style :: "Scale \<Rightarrow> real \<Rightarrow> py_error + (Color option \<times> real option)" where
  "style sc value0 =
     (let v = (if use_abs sc then \<bar>value0\<bar> else value0) in
      case stops sc of
        [] \<Rightarrow> Inl IndexError
      | s0 # rest \<Rightarrow>
          if v < stop_value s0 then Inr (stop_color s0, stop_size s0)
          else if v > stop_value (last (stops sc))
          then Inr (stop_color (last (stops sc)), stop_size (last (stops sc)))
          else
            (case bracket s0 None rest v of
               (lb, None) \<Rightarrow> Inl UnboundLocalError
             | (lb, Some ub) \<Rightarrow>
                 if stop_value ub - stop_value lb = 0 then Inl ZeroDivisionError
                 else
                   let p = (v - stop_value lb) / (stop_value ub - stop_value lb);
                       color = (if truthy_color (stop_color lb) \<and> truthy_color (stop_color ub)
                                then Some (Color_add (Color_rmul p (the (stop_color ub)))
                                                     (Color_rmul (1 - p) (the (stop_color lb))))
                                else None);
                       sz = (if truthy_num (stop_size lb) \<and> truthy_num (stop_size ub)
                             then Some (p * the (stop_size ub) + (1 - p) * the (stop_size lb))
                             else None)
                   in Inr (color, sz)))"

subsection \<open>The map model\<close>

text \<open>
  The parsed document. Every key the constructors read is a field; \<^verbatim>\<open>b1\<close> and \<^verbatim>\<open>b2\<close> are
  \<open>None\<close> where the document has \<^verbatim>\<open>null\<close>. The mappings of the document are the lists of
  their items.
\<close>

record node_json =
  nj_node_type :: string
  nj_x :: real
  nj_y :: real
  nj_bigg_id :: string
  nj_node_is_primary :: bool
  nj_label_x :: real
  nj_label_y :: real

record segment_json =
  sj_from_node_id :: string
  sj_to_node_id :: string
  sj_b1 :: "(real \<times> real) option"
  sj_b2 :: "(real \<times> real) option"

record reaction_json =
  rj_bigg_id :: string
  rj_metabolites :: "(string \<times> real) list"
  rj_reversibility :: bool
  rj_label_x :: real
  rj_label_y :: real
  rj_segments :: "(string \<times> segment_json) list"

record map_json =
  mj_canvas_x :: real
  mj_canvas_y :: real
  mj_canvas_width :: real
  mj_canvas_height :: real
  mj_nodes :: "(string \<times> node_json) list"
  mj_reactions :: "(string \<times> reaction_json) list"

text \<open>\<^verbatim>\<open>MapNode\<close> and its subclass \<^verbatim>\<open>MapMetabolite\<close>.\<close>

datatype node =
  MapNode (center: "real \<times> real")
  | MapMetabolite (center: "real \<times> real") (met_id: string) (primary: bool)
      (met_label_pos: "real \<times> real")

definition MapNode_init :: "node_json \<Rightarrow> node" where
  "MapNode_init nj = MapNode (nj_x nj, nj_y nj)"

definition MapMetabolite_init :: "node_json \<Rightarrow> node" where
  "MapMetabolite_init nj =
     MapMetabolite (nj_x nj, nj_y nj) (nj_bigg_id nj) (nj_node_is_primary nj)
       (nj_label_x nj, nj_label_y nj)"

text \<open>\<^verbatim>\<open>isinstance(n, MapMetabolite)\<close>\<close>

fun is_metabolite :: "node \<Rightarrow> bool" where
  "is_metabolite (MapNode _) = False"
| "is_metabolite (MapMetabolite _ _ _ _) = True"

record MapSegment =
  from_node :: node
  to_node :: node
  b1 :: "(real \<times> real) option"
  b2 :: "(real \<times> real) option"
  metabolite_id :: "string option"
  count :: "real option"
  has_arrow :: bool

definition MapSegment_init ::
  "(string \<rightharpoonup> real) \<Rightarrow> bool \<Rightarrow> segment_json \<Rightarrow> (string \<rightharpoonup> node) \<Rightarrow> py_error + MapSegment" where
  "MapSegment_init r_stoich r_reversible sj all_nodes =
     (case all_nodes (sj_from_node_id sj) of
        None \<Rightarrow> Inl KeyError
      | Some fn \<Rightarrow>
     (case all_nodes (sj_to_node_id sj) of
        None \<Rightarrow> Inl KeyError
      | Some tn \<Rightarrow>
          let swap = is_metabolite fn;
              fn' = (if swap then tn else fn);
              tn' = (if swap then fn else tn);
              b1' = (if swap then sj_b2 sj else sj_b1 sj);
              b2' = (if swap then sj_b1 sj else sj_b2 sj)
          in if is_metabolite tn' then
               (case r_stoich (met_id tn') of
                  None \<Rightarrow> Inl KeyError
                | Some c \<Rightarrow>
                    Inr \<lparr>from_node = fn', to_node = tn', b1 = b1', b2 = b2',
                         metabolite_id = Some (met_id tn'), count = Some c,
                         has_arrow = (c > 0 \<or> r_reversible)\<rparr>)
             else Inr \<lparr>from_node = fn', to_node = tn', b1 = b1', b2 = b2',
                       metabolite_id = None, count = None, has_arrow = False\<rparr>))"

text \<open>A comprehension or loop whose body can raise: the first exception ends it.\<close>

fun map_result :: "('a \<Rightarrow> py_error + 'b) \<Rightarrow> 'a list \<Rightarrow> py_error + 'b list" where
  "map_result f [] = Inr []"
| "map_result f (x # xs) =
     (case f x of
        Inl e \<Rightarrow> Inl e
      | Inr y \<Rightarrow> (case map_result f xs of Inl e \<Rightarrow> Inl e | Inr ys \<Rightarrow> Inr (y # ys)))"

record MapReaction =
  reaction_id :: string
  stoich :: "string \<rightharpoonup> real"
  reversible :: bool
  label_pos :: "real \<times> real"
  segments :: "MapSegment list"

text \<open>A dict built from key/value pairs in order: a later pair overwrites an earlier one.\<close>

definition dict_of :: "('k \<times> 'v) list \<Rightarrow> ('k \<rightharpoonup> 'v)" where
  "dict_of kvs = fold (\<lambda>(k, v) m. m(k \<mapsto> v)) kvs Map.empty"

definition MapReaction_init :: "reaction_json \<Rightarrow> (string \<rightharpoonup> node) \<Rightarrow> py_error + MapReaction" where
  "MapReaction_init rj all_nodes =
     (let st = dict_of (rj_metabolites rj) in
      case map_result (\<lambda>sj. MapSegment_init st (rj_reversibility rj) sj all_nodes)
             (map snd (rj_segments rj)) of
        Inl e \<Rightarrow> Inl e
      | Inr segs \<Rightarrow>
          Inr \<lparr>reaction_id = rj_bigg_id rj, stoich = st, reversible = rj_reversibility rj,
               label_pos = (rj_label_x rj, rj_label_y rj), segments = segs\<rparr>)"

text \<open>
  \<^verbatim>\<open>EscherMap\<close>. The requested width and height are only ever passed to \<^verbatim>\<open>str\<close>; they are
  kept as the strings \<^verbatim>\<open>str\<close> gives.
\<close>

record EscherMap =
  width :: string
  height :: string
  reaction_scale :: "Scale option"
  metabolite_scale :: "Scale option"
  origin :: "real \<times> real"
  map_size :: "real \<times> real"
  metabolites :: "node list"
  reactions :: "MapReaction list"

definition make_node :: "node_json \<Rightarrow> node" where
  "make_node nj =
     (if nj_node_type nj = ''metabolite'' then MapMetabolite_init nj else MapNode_init nj)"

text \<open>The table \<^verbatim>\<open>all_nodes\<close> that the constructor builds from the nodes of the document.\<close>

definition node_table :: "map_json \<Rightarrow> (string \<rightharpoonup> node)" where
  "node_table mj = dict_of (map (\<lambda>(node_id, nj). (node_id, make_node nj)) (mj_nodes mj))"

definition EscherMap_init ::
  "map_json \<Rightarrow> string \<Rightarrow> string \<Rightarrow> Scale option \<Rightarrow> Scale option \<Rightarrow> py_error + EscherMap" where
  "EscherMap_init mj w h rscale mscale =
     (let all_nodes = node_table mj;
          mets = map (\<lambda>(node_id, nj). MapMetabolite_init nj)
                   (filter (\<lambda>(node_id, nj). nj_node_type nj = ''metabolite'') (mj_nodes mj))
      in case map_result (\<lambda>(reaction_id, rj). MapReaction_init rj all_nodes) (mj_reactions mj) of
           Inl e \<Rightarrow> Inl e
         | Inr rs \<Rightarrow>
             Inr \<lparr>width = w, height = h, reaction_scale = rscale, metabolite_scale = mscale,
                  origin = (mj_canvas_x mj, mj_canvas_y mj),
                  map_size = (mj_canvas_width mj, mj_canvas_height mj),
                  metabolites = mets, reactions = rs\<rparr>)"

subsection \<open>Drawing primitives\<close>

text \<open>
  An \<^verbatim>\<open>ET.Element\<close>: tag, attributes in insertion order, text, children. An attribute
  value is a string. Where the source formats numbers into the string, the numbers are
  kept: \<open>PyStr x\<close> is \<^verbatim>\<open>str(x)\<close>, \<open>PathLine\<close> and \<open>PathCubic\<close> are the two \<^verbatim>\<open>d\<close> strings
  \<^verbatim>\<open>M s L e\<close> and \<^verbatim>\<open>M s C b1 b2 e\<close> (coordinates printed with one decimal), and
  \<open>ViewBox\<close> is the \<^verbatim>\<open>viewBox\<close> string.
\<close>

datatype attr_val =
  Str string
  | PyStr real
  | PathLine "real \<times> real" "real \<times> real"
  | PathCubic "real \<times> real" "real \<times> real" "real \<times> real" "real \<times> real"
  | ViewBox real real real real

datatype Element =
  Element (el_tag: string) (el_attrib: "(string \<times> attr_val) list")
    (el_text: "attr_val option") (el_children: "Element list")

fun dict_set :: "(string \<times> 'v) list \<Rightarrow> string \<Rightarrow> 'v \<Rightarrow> (string \<times> 'v) list" where
  "dict_set [] k v = [(k, v)]"
| "dict_set ((k', v') # kvs) k v =
     (if k' = k then (k, v) # kvs else (k', v') # dict_set kvs k v)"

definition el_set :: "Element \<Rightarrow> string \<Rightarrow> attr_val \<Rightarrow> Element" where
  "el_set e k v = Element (el_tag e) (dict_set (el_attrib e) k v) (el_text e) (el_children e)"

definition el_append :: "Element \<Rightarrow> Element \<Rightarrow> Element" where
  "el_append e c = Element (el_tag e) (el_attrib e) (el_text e) (el_children e @ [c])"

definition el_extend :: "Element \<Rightarrow> Element list \<Rightarrow> Element" where
  "el_extend e cs = fold (\<lambda>c e'. el_append e' c) cs e"

definition CSS :: string where
  "CSS =
     ''\<newline>'' @
     ''    #canvas {\<newline>'' @
     ''      fill: #ffffff;\<newline>'' @
     ''      stroke: #cccccc;\<newline>'' @
     ''    }\<newline>'' @
     ''    .label {\<newline>'' @
     ''      font-family: sans-serif;\<newline>'' @
     ''      font-style: italic;\<newline>'' @
     ''      font-weight: bold;\<newline>'' @
     ''      stroke: none;\<newline>'' @
     ''      text-rendering: optimizelegibility;\<newline>'' @
     ''    }\<newline>'' @
     ''    #reactions .label {\<newline>'' @
     ''      font-size: 30px;\<newline>'' @
     ''      fill: #334e75;\<newline>'' @
     ''    }\<newline>'' @
     ''    #reactions .label.stoich {\<newline>'' @
     ''      font-size: 12px;\<newline>'' @
     ''      fill: #334e75;\<newline>'' @
     ''    }\<newline>'' @
     ''    #metabolites .label {\<newline>'' @
     ''      font-size: 20px;\<newline>'' @
     ''      fill: black;\<newline>'' @
     ''    }\<newline>''"

definition MET_FILL :: string where
  "MET_FILL = ''#e0865b''"

definition MET_STROKE :: string where
  "MET_STROKE = ''#a24510''"

definition RXN_STROKE :: string where
  "RXN_STROKE = ''#334e75''"

subsection \<open>Rendering\<close>

text \<open>\<^verbatim>\<open>MapMetabolite.size\<close>; a plain \<^verbatim>\<open>MapNode\<close> has no such method.\<close>

fun MapMetabolite_size :: "node \<Rightarrow> py_error + real" where
  "MapMetabolite_size (MapNode _) = Inl AttributeError"
| "MapMetabolite_size (MapMetabolite _ _ p _) = Inr (if p then 20 else 12)"

text \<open>
  The geometry of a segment that ends at a metabolite (lines 418 to 430): the point from
  which the segment approaches the node, the vector from there to the center of the node,
  its length, the length left after trimming, and the new end point.
\<close>

definition approach_point :: "MapSegment \<Rightarrow> real \<times> real" where
  "approach_point seg = (case b2 seg of Some q \<Rightarrow> q | None \<Rightarrow> center (from_node seg))"

definition seg_dx :: "MapSegment \<Rightarrow> real" where
  "seg_dx seg = fst (center (to_node seg)) - fst (approach_point seg)"

definition seg_dy :: "MapSegment \<Rightarrow> real" where
  "seg_dy seg = snd (center (to_node seg)) - snd (approach_point seg)"

definition seg_l :: "MapSegment \<Rightarrow> real" where
  "seg_l seg = sqrt (seg_dx seg * seg_dx seg + seg_dy seg * seg_dy seg)"

definition trimmed_l :: "MapSegment \<Rightarrow> real \<Rightarrow> real" where
  "trimmed_l seg node_size =
     (let padding = (if has_arrow seg then 20 else 10);
          minlen = 5;
          l1 = seg_l seg - node_size - padding
      in if l1 < minlen then seg_l seg - node_size else l1)"

definition new_end :: "MapSegment \<Rightarrow> real \<Rightarrow> real \<times> real" where
  "new_end seg node_size =
     (let ratio = trimmed_l seg node_size / seg_l seg
      in (fst (approach_point seg) + seg_dx seg * ratio,
          snd (approach_point seg) + seg_dy seg * ratio))"

text \<open>The path of such a segment to the end point \<open>e\<close> (lines 432 to 439).\<close>

definition segment_path :: "MapSegment \<Rightarrow> real \<times> real \<Rightarrow> Element" where
  "segment_path seg e =
     (let start = center (from_node seg);
          d = (case (b1 seg, b2 seg) of
                 (Some q1, Some q2) \<Rightarrow> PathCubic start q1 q2 e
               | _ \<Rightarrow> PathLine start e);
          path_attrs = (if has_arrow seg
                        then [(''d'', d), (''marker-end'', Str ''url(#arrowhead)'')]
                        else [(''d'', d)])
      in Element ''path'' path_attrs None [])"

text \<open>The label for the count \<open>c\<close>, which is \<^verbatim>\<open>abs(self.count)\<close> (lines 448 to 451).\<close>

definition stoich_label :: "MapSegment \<Rightarrow> real \<times> real \<Rightarrow> real \<Rightarrow> Element" where
  "stoich_label seg e c =
     (let label_x = fst e + seg_dy seg / seg_l seg * 24;
          label_y = snd e - seg_dx seg / seg_l seg * 24
      in Element ''text''
           [(''class'', Str ''label stoich''), (''x'', PyStr label_x), (''y'', PyStr label_y)]
           (Some (PyStr c)) [])"

definition MapSegment_to_svg :: "MapSegment \<Rightarrow> py_error + Element" where
  "MapSegment_to_svg seg =
     (case metabolite_id seg of
        None \<Rightarrow>
          Inr (Element ''path''
                 [(''d'', PathLine (center (from_node seg)) (center (to_node seg)))] None [])
      | Some _ \<Rightarrow>
         (case MapMetabolite_size (to_node seg) of
            Inl e \<Rightarrow> Inl e
          | Inr node_size \<Rightarrow>
              if seg_l seg = 0 then Inl ZeroDivisionError
              else
               (case count seg of
                  None \<Rightarrow> Inl TypeError
                | Some c \<Rightarrow>
                    if \<bar>c\<bar> = 1 then Inr (segment_path seg (new_end seg node_size))
                    else Inr (Element ''g'' [] None
                                [segment_path seg (new_end seg node_size),
                                 stoich_label seg (new_end seg node_size) \<bar>c\<bar>]))))"

text \<open>The overrides that \<^verbatim>\<open>MapReaction.to_svg\<close> applies to the primitive of one segment.\<close>

definition override_arc ::
  "Color option \<Rightarrow> real option \<Rightarrow> real option \<Rightarrow> MapSegment \<Rightarrow> Element \<Rightarrow> Element" where
  "override_arc color sz direction seg arc =
     (let arc1 = (case color of None \<Rightarrow> arc | Some c \<Rightarrow> el_set arc ''stroke'' (Str (Color_str c)));
          arc2 = (case sz of None \<Rightarrow> arc1 | Some s \<Rightarrow> el_set arc1 ''stroke-width'' (PyStr s))
      in case (direction, count seg) of
           (Some dir, Some c) \<Rightarrow>
             if c * dir > 0 then el_set arc2 ''marker-end'' (Str ''url(#arrowhead)'')
             else el_set arc2 ''marker-end'' (Str [])
         | _ \<Rightarrow> arc2)"

text \<open>The style of a reaction: the scale's, when there is a value and a scale.\<close>

definition reaction_style ::
  "Scale option \<Rightarrow> real option \<Rightarrow> py_error + (Color option \<times> real option)" where
  "reaction_style parent_reaction_scale val =
     (case val of
        None \<Rightarrow> Inr (None, None)
      | Some v \<Rightarrow>
         (case parent_reaction_scale of
            None \<Rightarrow> Inr (None, None)
          | Some sc \<Rightarrow> style sc v))"

definition render_segment ::
  "Color option \<Rightarrow> real option \<Rightarrow> real option \<Rightarrow> MapSegment \<Rightarrow> py_error + Element" where
  "render_segment color sz direction seg =
     (case MapSegment_to_svg seg of
        Inl e \<Rightarrow> Inl e
      | Inr arc \<Rightarrow> Inr (override_arc color sz direction seg arc))"

definition MapReaction_to_svg ::
  "Scale option \<Rightarrow> MapReaction \<Rightarrow> real option \<Rightarrow> real option \<Rightarrow> py_error + Element" where
  "MapReaction_to_svg parent_reaction_scale rxn val direction =
     (case reaction_style parent_reaction_scale val of
        Inl e \<Rightarrow> Inl e
      | Inr (color, sz) \<Rightarrow>
         (case map_result (render_segment color sz direction) (segments rxn) of
            Inl e \<Rightarrow> Inl e
          | Inr arcs \<Rightarrow>
             (let group = el_extend (Element ''g'' [(''name'', Str (reaction_id rxn))] None []) arcs;
                  label = Element ''text''
                            [(''class'', Str ''label''), (''x'', PyStr (fst (label_pos rxn))),
                             (''y'', PyStr (snd (label_pos rxn)))]
                            (Some (Str (reaction_id rxn))) []
              in Inr (el_append group label))))"

text \<open>\<^verbatim>\<open>str\<close> of an optional color and of an optional number.\<close>

definition str_color :: "Color option \<Rightarrow> attr_val" where
  "str_color c = (case c of None \<Rightarrow> Str ''None'' | Some c' \<Rightarrow> Str (Color_str c'))"

definition str_num :: "real option \<Rightarrow> attr_val" where
  "str_num x = (case x of None \<Rightarrow> Str ''None'' | Some y \<Rightarrow> PyStr y)"

text \<open>The circle of a metabolite, with the overrides of the scale.\<close>

definition metabolite_circle :: "Scale option \<Rightarrow> node \<Rightarrow> real \<Rightarrow> real option \<Rightarrow> py_error + Element" where
  "metabolite_circle parent_metabolite_scale n r0 val =
     (let circle = Element ''circle''
                     [(''cx'', PyStr (fst (center n))), (''cy'', PyStr (snd (center n))),
                      (''r'', PyStr r0)] None []
      in case val of
           None \<Rightarrow> Inr circle
         | Some v \<Rightarrow>
            (case parent_metabolite_scale of
               None \<Rightarrow> Inr circle
             | Some sc \<Rightarrow>
                (case style sc v of
                   Inl e \<Rightarrow> Inl e
                 | Inr (color, sz) \<Rightarrow>
                     Inr (el_set (el_set (el_set circle ''fill'' (str_color color))
                                    ''stroke'' (Str ''none'')) ''r'' (str_num sz)))))"

definition MapMetabolite_to_svg :: "Scale option \<Rightarrow> node \<Rightarrow> real option \<Rightarrow> py_error + Element" where
  "MapMetabolite_to_svg parent_metabolite_scale n val =
     (case MapMetabolite_size n of
        Inl e \<Rightarrow> Inl e
      | Inr r0 \<Rightarrow>
         (case metabolite_circle parent_metabolite_scale n r0 val of
            Inl e \<Rightarrow> Inl e
          | Inr circle \<Rightarrow>
             (let label = Element ''text''
                            [(''class'', Str ''label''), (''x'', PyStr (fst (met_label_pos n))),
                             (''y'', PyStr (snd (met_label_pos n)))]
                            (Some (Str (met_id n))) []
              in Inr (Element ''g'' [(''name'', Str (met_id n))] None [circle, label]))))"

text \<open>
  An overlay argument of \<^verbatim>\<open>to_svg\<close> is \<open>None\<close> or a mapping, given by the list of its
  items; the mapping is true when it is not empty, and \<^verbatim>\<open>get\<close> looks a key up.
\<close>

type_synonym overlay = "(string \<times> real) list option"

definition truthy_overlay :: "overlay \<Rightarrow> bool" where
  "truthy_overlay d \<longleftrightarrow> (case d of None \<Rightarrow> False | Some kvs \<Rightarrow> kvs \<noteq> [])"

definition overlay_get :: "(string \<times> real) list \<Rightarrow> string \<Rightarrow> real option" where
  "overlay_get kvs k = map_of kvs k"

text \<open>The \<^verbatim>\<open>reactions\<close> group before the reactions are appended (lines 250 to 254).\<close>

definition reactions_group :: "overlay \<Rightarrow> Element" where
  "reactions_group reaction_data =
     (let reactions_el = Element ''g''
            [(''id'', Str ''reactions''), (''fill'', Str ''none''), (''stroke'', Str RXN_STROKE),
             (''stroke-width'', Str ''10'')] None []
      in if truthy_overlay reaction_data
         then el_set (el_set reactions_el ''stroke'' (Str ''#eeeeee'')) ''stroke-width'' (Str ''5'')
         else reactions_el)"

text \<open>The loop over the reactions (lines 257 to 264).\<close>

definition render_reactions :: "EscherMap \<Rightarrow> overlay \<Rightarrow> overlay \<Rightarrow> py_error + Element list" where
  "render_reactions m reaction_data0 reaction_direction0 =
     (let reaction_data = (case reaction_data0 of None \<Rightarrow> [] | Some kvs \<Rightarrow> kvs);
          reaction_direction = (case reaction_direction0 of None \<Rightarrow> reaction_data | Some kvs \<Rightarrow> kvs)
      in map_result
           (\<lambda>reaction.
              let val = overlay_get reaction_data (reaction_id reaction);
                  direction = overlay_get reaction_direction (reaction_id reaction)
              in MapReaction_to_svg (reaction_scale m) reaction val direction)
           (reactions m))"

text \<open>The \<^verbatim>\<open>metabolites\<close> group before the metabolites are appended (lines 267 to 272).\<close>

definition metabolites_group :: "overlay \<Rightarrow> Element" where
  "metabolites_group metabolite_data =
     (let metabolites_el = Element ''g''
            [(''id'', Str ''metabolites''), (''fill'', Str MET_FILL), (''stroke'', Str MET_STROKE),
             (''stroke-width'', Str ''2'')] None []
      in if truthy_overlay metabolite_data
         then el_set (el_set metabolites_el ''fill'' (Str ''#eeeeee'')) ''stroke'' (Str ''none'')
         else metabolites_el)"

definition render_metabolites :: "EscherMap \<Rightarrow> overlay \<Rightarrow> py_error + Element list" where
  "render_metabolites m metabolite_data0 =
     (let metabolite_data = (case metabolite_data0 of None \<Rightarrow> [] | Some kvs \<Rightarrow> kvs)
      in map_result
           (\<lambda>metabolite.
              MapMetabolite_to_svg (metabolite_scale m) metabolite
                (overlay_get metabolite_data (met_id metabolite)))
           (metabolites m))"

text \<open>
  The document that \<^verbatim>\<open>to_svg\<close> assembles around the rendered reactions \<open>rs\<close> and the
  rendered metabolites \<open>ms\<close>.
\<close>

definition svg_document ::
  "EscherMap \<Rightarrow> overlay \<Rightarrow> overlay \<Rightarrow> Element list \<Rightarrow> Element list \<Rightarrow> Element" where
  "svg_document m metabolite_data reaction_data rs ms =
     (let style_el = Element ''style'' [(''type'', Str ''text/css'')] (Some (Str CSS)) [];
          marker = Element ''marker''
                     [(''id'', Str ''arrowhead''), (''viewBox'', Str ''0 -10 13 20''),
                      (''refX'', Str ''2''), (''refY'', Str ''0''),
                      (''markerUnits'', Str ''strokeWidth''), (''markerWidth'', Str ''2''),
                      (''markerHeight'', Str ''2''), (''orient'', Str ''auto'')] None
                     [Element ''path''
                        [(''d'', Str ''M 0 -10 L 13 0 L 0 10 Z''), (''fill'', Str ''#334e75''),
                         (''stroke'', Str ''none'')] None []];
          defs = Element ''defs'' [] None [style_el, marker];
          canvas = Element ''rect''
                     [(''id'', Str ''canvas''), (''x'', PyStr (fst (origin m))),
                      (''y'', PyStr (snd (origin m))), (''width'', PyStr (fst (map_size m))),
                      (''height'', PyStr (snd (map_size m)))] None [];
          top_group = Element ''g'' [(''id'', Str ''eschermap'')] None
                        [canvas, el_extend (reactions_group reaction_data) rs,
                         el_extend (metabolites_group metabolite_data) ms]
      in Element ''svg''
           [(''width'', Str (width m)), (''height'', Str (height m)),
            (''viewBox'', ViewBox (fst (origin m)) (snd (origin m))
                           (fst (map_size m)) (snd (map_size m)))]
           None [defs, top_group])"

definition EscherMap_to_svg :: "EscherMap \<Rightarrow> overlay \<Rightarrow> overlay \<Rightarrow> overlay \<Rightarrow> py_error + Element" where
  "EscherMap_to_svg m metabolite_data reaction_data reaction_direction =
     (case render_reactions m reaction_data reaction_direction of
        Inl e \<Rightarrow> Inl e
      | Inr rs \<Rightarrow>
         (case render_metabolites m metabolite_data of
            Inl e \<Rightarrow> Inl e
          | Inr ms \<Rightarrow> Inr (svg_document m metabolite_data reaction_data rs ms)))"

section \<open>Notions used in the statements\<close>

text \<open>A lowercase hexadecimal digit.\<close>

definition is_lower_hex :: "char \<Rightarrow> bool" where
  "is_lower_hex c \<longleftrightarrow> c \<in> set ''0123456789abcdef''"


definition hex2 :: "nat \<Rightarrow> string" where
  "hex2 n = [hex_digit (n div 16), hex_digit (n mod 16)]"


definition sum_exact :: "real \<Rightarrow> bool" where
  "sum_exact x \<longleftrightarrow> b64_round (x + 1 / 2) = x + 1 / 2"

text \<open>The color of an item of the \<^verbatim>\<open>stops\<close> mapping is a string that \<open>from_hex\<close> accepts.\<close>

definition parses_color :: "string option \<Rightarrow> bool" where
  "parses_color c =
     (case c of None \<Rightarrow> False | Some h \<Rightarrow> (case from_hex h of Inl _ \<Rightarrow> False | Inr _ \<Rightarrow> True))"

definition item_color :: "real \<times> string option \<times> real option \<Rightarrow> string option" where
  "item_color it = fst (snd it)"

text \<open>
  A stored stop is the stop of an item: it has the item's value, the color parsed from
  the item's string, and the item's size, present or absent.
\<close>

definition stop_of_item :: "real \<times> string option \<times> real option \<Rightarrow> stop \<Rightarrow> bool" where
  "stop_of_item it st \<longleftrightarrow>
     stop_value st = fst it \<and> stop_size st = snd (snd it) \<and>
     (case item_color it of
        None \<Rightarrow> False
      | Some h \<Rightarrow> (case stop_color st of None \<Rightarrow> False | Some col \<Rightarrow> from_hex h = Inr col))"

text \<open>Finding a group of the document by its \<^verbatim>\<open>id\<close>, below the group \<^verbatim>\<open>eschermap\<close>.\<close>

fun find_by_id :: "string \<Rightarrow> Element list \<Rightarrow> Element option" where
  "find_by_id i [] = None"
| "find_by_id i (e # es) =
     (if map_of (el_attrib e) ''id'' = Some (Str i) then Some e else find_by_id i es)"

definition svg_group :: "string \<Rightarrow> Element \<Rightarrow> Element option" where
  "svg_group i svg =
     (case find_by_id ''eschermap'' (el_children svg) of
        None \<Rightarrow> None
      | Some top_group \<Rightarrow> find_by_id i (el_children top_group))"

definition attr :: "Element \<Rightarrow> string \<Rightarrow> attr_val option" where
  "attr e k = map_of (el_attrib e) k"

subsection \<open>Example documents\<close>

text \<open>
  A reaction that produces two units of a primary metabolite, drawn by one segment
  between a connector node at the origin and the metabolite at \<open>(80, 0)\<close>; the document
  names the metabolite as the \<open>from\<close> node.
\<close>

definition double_product_doc :: map_json where
  "double_product_doc =
     \<lparr>mj_canvas_x = 0, mj_canvas_y = 0, mj_canvas_width = 200, mj_canvas_height = 100,
      mj_nodes =
        [(''1'', \<lparr>nj_node_type = ''midmarker'', nj_x = 0, nj_y = 0, nj_bigg_id = [],
                  nj_node_is_primary = False, nj_label_x = 0, nj_label_y = 0\<rparr>),
         (''2'', \<lparr>nj_node_type = ''metabolite'', nj_x = 80, nj_y = 0, nj_bigg_id = ''A'',
                  nj_node_is_primary = True, nj_label_x = 80, nj_label_y = 30\<rparr>)],
      mj_reactions =
        [(''10'', \<lparr>rj_bigg_id = ''R'', rj_metabolites = [(''A'', 2)],
                   rj_reversibility = False, rj_label_x = 50, rj_label_y = 10,
                   rj_segments =
                     [(''20'', \<lparr>sj_from_node_id = ''2'', sj_to_node_id = ''1'',
                                sj_b1 = None, sj_b2 = None\<rparr>)]\<rparr>)]\<rparr>"

definition double_product_segment :: MapSegment where
  "double_product_segment =
     \<lparr>from_node = MapNode (0, 0), to_node = MapMetabolite (80, 0) ''A'' True (80, 30),
      b1 = None, b2 = None, metabolite_id = Some ''A'', count = Some 2, has_arrow = True\<rparr>"

definition double_product_reaction :: MapReaction where
  "double_product_reaction =
     \<lparr>reaction_id = ''R'', stoich = dict_of [(''A'', 2)], reversible = False,
      label_pos = (50, 10), segments = [double_product_segment]\<rparr>"

definition double_product_map :: EscherMap where
  "double_product_map =
     \<lparr>width = ''200'', height = ''100'', reaction_scale = None, metabolite_scale = None,
      origin = (0, 0), map_size = (200, 100),
      metabolites = [MapMetabolite (80, 0) ''A'' True (80, 30)],
      reactions = [double_product_reaction]\<rparr>"

text \<open>The same segment for half a unit of the metabolite.\<close>

definition half_product_segment :: MapSegment where
  "half_product_segment = double_product_segment\<lparr>count := Some (1 / 2)\<rparr>"

text \<open>A map without nodes and reactions.\<close>

definition empty_map :: EscherMap where
  "empty_map =
     \<lparr>width = ''200'', height = ''100'', reaction_scale = None, metabolite_scale = None,
      origin = (0, 0), map_size = (200, 100), metabolites = [], reactions = []\<rparr>"

section \<open>Colors\<close>

subsection \<open>Parsing\<close>

lemmas color_eval = from_hex_def startswith_def py_int16_def read_sign_def skip_prefix_def
  digit_value_def py_isspace_def

lemma hex_digit_facts:
  assumes "digit_value c < 16"
  shows "\<not> py_isspace c" and "c \<noteq> CHR ''+''" and "c \<noteq> CHR ''-''"
    and "c \<noteq> CHR ''_''" and "c \<noteq> CHR ''x''" and "c \<noteq> CHR ''X''"
  using assms
  by (auto simp: digit_value_def py_isspace_def Let_def split: if_splits)

lemma lower_hex_digit:
  assumes "is_lower_hex c"
  shows "digit_value c < 16" and "hex_digit (digit_value c) = c"
  using assms
  by (auto simp: is_lower_hex_def digit_value_def hex_digit_def)

lemma py_int16_hex2:
  assumes "digit_value a < 16" "digit_value b < 16"
  shows "py_int16 [a, b] = Inr (int (16 * digit_value a + digit_value b))"
  using hex_digit_facts[OF assms(1)] hex_digit_facts[OF assms(2)] assms
  by (simp add: py_int16_def read_sign_def skip_prefix_def)

text \<open>A string of the wrong length or without the leading \<^verbatim>\<open>#\<close> is refused.\<close>

lemma from_hex_shape:
  "length hexstr \<noteq> 7 \<or> \<not> startswith hexstr ''#'' \<Longrightarrow> from_hex hexstr = Inl ValueError"
  by (auto simp: from_hex_def)

text \<open>Six hexadecimal digits of either case are accepted, and every channel is a byte.\<close>

lemma from_hex_digits:
  assumes "\<forall>c\<in>set [a1, a2, a3, a4, a5, a6]. digit_value c < 16"
  shows "from_hex [CHR ''#'', a1, a2, a3, a4, a5, a6] =
           Inr (Color (real (16 * digit_value a1 + digit_value a2))
                      (real (16 * digit_value a3 + digit_value a4))
                      (real (16 * digit_value a5 + digit_value a6)))"
  using assms by (simp add: from_hex_def startswith_def py_int16_hex2)

lemma from_hex_digits_range:
  assumes "digit_value a < 16" "digit_value b < 16"
  shows "real (16 * digit_value a + digit_value b) \<le> 255"
  using assms by simp

text \<open>
  Claim C5. Parsing is said to fail for every string whose six characters after the \<^verbatim>\<open>#\<close>
  are not all hexadecimal digits, and to give channels between 0 and 255. The source
  leaves that check to \<^verbatim>\<open>int(s, 16)\<close>, which also reads a sign: the string \<^verbatim>\<open>#-1-2-3\<close> is
  accepted, and its channels are negative.
\<close>

theorem from_hex_accepts_signs:
  "from_hex ''#-1-2-3'' = Inr (Color (- 1) (- 2) (- 3))"
  by (simp add: color_eval)

subsection \<open>Binary64 rounding\<close>

lemma round_half_even_int [simp]: "round_half_even (of_int z) = z"
  by (simp add: round_half_even_def)


lemma b64_exponent_le:
  assumes "y = of_int m * 2 powr of_int e" and "\<bar>m\<bar> < 2 ^ 53" and "- 1074 \<le> e" and "y \<noteq> 0"
  shows "b64_exponent y \<le> e"
proof -
  have pos: "0 < \<bar>y\<bar>" using assms(4) by simp
  have "\<bar>y\<bar> = of_int \<bar>m\<bar> * 2 powr of_int e"
    by (simp add: assms(1) abs_mult)
  also have "\<dots> < 2 ^ 53 * 2 powr of_int e"
  proof -
    have "(of_int \<bar>m\<bar> :: real) < of_int (2 ^ 53)" using assms(2) by (simp only: of_int_less_iff)
    then have "(of_int \<bar>m\<bar> :: real) < 2 ^ 53" by simp
    then show ?thesis by (simp add: mult_strict_right_mono)
  qed
  also have "\<dots> = 2 powr (53 + of_int e)"
    by (simp add: powr_add)
  finally have "\<bar>y\<bar> < 2 powr (53 + of_int e)" .
  then have "log 2 \<bar>y\<bar> < 53 + of_int e"
    using pos by (simp add: log_less_iff)
  then have "log 2 \<bar>y\<bar> < of_int (53 + e)" by simp
  then have "\<lfloor>log 2 \<bar>y\<bar>\<rfloor> < 53 + e" by (simp only: floor_less_iff)
  then show ?thesis using assms(3) by (simp add: b64_exponent_def)
qed

lemma b64_round_exact:
  assumes "y = of_int m * 2 powr of_int e" and "\<bar>m\<bar> < 2 ^ 53" and "- 1074 \<le> e"
  shows "b64_round y = y"
proof (cases "y = 0")
  case True
  then show ?thesis by (simp add: b64_round_def)
next
  case False
  define E where "E = b64_exponent y"
  have le: "E \<le> e" unfolding E_def by (rule b64_exponent_le[OF assms False])
  define n where "n = nat (e - E)"
  have e: "of_int e = of_int E + real n" using le by (simp add: n_def)
  have p: "(2::real) powr of_int e = 2 ^ n * 2 powr of_int E"
    by (simp add: e powr_add powr_realpow)
  have q: "y / 2 powr of_int E = of_int (m * 2 ^ n)"
    by (simp add: assms(1) p)
  have "b64_round y = of_int (round_half_even (y / 2 powr of_int E)) * 2 powr of_int E"
    using False by (simp add: b64_round_def E_def)
  also have "\<dots> = of_int (m * 2 ^ n) * 2 powr of_int E"
    by (simp only: q round_half_even_int)
  also have "\<dots> = y"
    by (simp add: assms(1) p)
  finally show ?thesis .
qed




lemma b64_round_dyadic:
  assumes "\<bar>m\<bar> < 2 ^ 53" and "k \<le> 1074"
  shows "b64_round (of_int m / 2 ^ k) = of_int m / 2 ^ k"
proof -
  have "(2::real) powr of_int (- int k) = 1 / 2 ^ k"
    by (simp add: powr_minus_divide powr_realpow)
  then have eq: "of_int m / 2 ^ k = of_int m * (2::real) powr of_int (- int k)" by simp
  have le: "- 1074 \<le> - int k" using assms(2) by simp
  show ?thesis by (rule b64_round_exact[OF eq assms(1) le])
qed


lemma sum_exact_nat: "n < 2 ^ 52 \<Longrightarrow> sum_exact (real n)"
proof -
  assume n: "n < 2 ^ 52"
  have s: "real n + 1 / 2 = of_int (2 * int n + 1) / 2 ^ 1" by (simp add: add_divide_distrib)
  have "\<bar>2 * int n + 1\<bar> < 2 ^ 53" using n by simp
  then have "b64_round (of_int (2 * int n + 1) / 2 ^ 1) = of_int (2 * int n + 1) / 2 ^ 1"
    by (rule b64_round_dyadic) simp
  then show ?thesis by (simp only: sum_exact_def s)
qed

subsection \<open>Formatting\<close>

lemma channel_int_exact: "sum_exact x \<Longrightarrow> channel_int x = py_trunc (x + 1 / 2)"
  by (simp add: channel_int_def sum_exact_def)

lemma channel_int_nat: "n < 2 ^ 52 \<Longrightarrow> channel_int (real n) = int n"
  using channel_int_exact[OF sum_exact_nat, of n] by (simp add: py_trunc_def)

lemma hex_digits_lt_256:
  "n < 256 \<Longrightarrow> hex_digits n = (if n < 16 then [hex_digit n] else hex2 n)"
  by (subst hex_digits.simps, subst hex_digits.simps) (auto simp: hex2_def)

lemma format_02x_byte:
  assumes "n < 256"
  shows "format_02x (int n) = (if n < 16 then [CHR ''0'', hex_digit n] else hex2 n)"
  using assms by (simp add: format_02x_def hex_digits_lt_256 hex2_def)

lemma hex2_lt_16: "n < 16 \<Longrightarrow> hex2 n = [CHR ''0'', hex_digit n]"
  by (simp add: hex2_def hex_digit_def)

lemma format_02x_hex2: "n < 256 \<Longrightarrow> format_02x (int n) = hex2 n"
  by (simp add: format_02x_byte hex2_lt_16)





















subsection \<open>Round trip\<close>

lemma hex2_digits:
  assumes "is_lower_hex a" "is_lower_hex b"
  shows "hex2 (16 * digit_value a + digit_value b) = [a, b]"
  using lower_hex_digit[OF assms(1)] lower_hex_digit[OF assms(2)]
  by (simp add: hex2_def)

lemma channel_roundtrip:
  assumes "is_lower_hex a" "is_lower_hex b"
  shows "format_02x (channel_int (real (16 * digit_value a + digit_value b))) = [a, b]"
proof -
  have lt: "16 * digit_value a + digit_value b < 256"
    using lower_hex_digit(1)[OF assms(1)] lower_hex_digit(1)[OF assms(2)] by simp
  then have "16 * digit_value a + digit_value b < 2 ^ 52" by simp
  then have "channel_int (real (16 * digit_value a + digit_value b))
               = int (16 * digit_value a + digit_value b)"
    by (rule channel_int_nat)
  then show ?thesis
    using lt by (simp only: format_02x_hex2 hex2_digits[OF assms])
qed

text \<open>
  Claim C7. For every string made of \<^verbatim>\<open>#\<close> and six lowercase hexadecimal digits, parsing
  succeeds and formatting the parsed color gives the string back.
\<close>

theorem color_roundtrip:
  assumes "length ds = 6" and "\<forall>c\<in>set ds. is_lower_hex c"
  shows "\<exists>col. from_hex (CHR ''#'' # ds) = Inr col \<and> Color_str col = CHR ''#'' # ds"
proof -
  from assms(1) obtain a1 a2 a3 a4 a5 a6 where ds: "ds = [a1, a2, a3, a4, a5, a6]"
    by (auto simp: length_Suc_conv eval_nat_numeral)
  have lh: "is_lower_hex a1" "is_lower_hex a2" "is_lower_hex a3" "is_lower_hex a4"
    "is_lower_hex a5" "is_lower_hex a6"
    using assms(2) by (simp_all add: ds)
  have "\<forall>c\<in>set [a1, a2, a3, a4, a5, a6]. digit_value c < 16"
    using lh by (simp add: lower_hex_digit(1))
  then have fh: "from_hex (CHR ''#'' # ds) =
           Inr (Color (real (16 * digit_value a1 + digit_value a2))
                      (real (16 * digit_value a3 + digit_value a4))
                      (real (16 * digit_value a5 + digit_value a6)))"
    unfolding ds by (rule from_hex_digits)
  have "Color_str (Color (real (16 * digit_value a1 + digit_value a2))
                      (real (16 * digit_value a3 + digit_value a4))
                      (real (16 * digit_value a5 + digit_value a6))) = CHR ''#'' # ds"
    unfolding Color_str_def Color.sel
    by (simp only: channel_roundtrip lh ds) simp
  with fh show ?thesis by blast
qed

text \<open>The instance of the specification: \<^verbatim>\<open>#1a2b3c\<close>.\<close>

theorem color_roundtrip_witness:
  "from_hex ''#1a2b3c'' = Inr (Color 26 43 60) \<and> Color_str (Color 26 43 60) = ''#1a2b3c''"
proof -
  have "length ''1a2b3c'' = 6" by simp
  moreover have "\<forall>c\<in>set ''1a2b3c''. is_lower_hex c" by (simp add: is_lower_hex_def)
  ultimately have "\<exists>col. from_hex ''#1a2b3c'' = Inr col \<and> Color_str col = ''#1a2b3c''"
    using color_roundtrip[of "''1a2b3c''"] by simp
  moreover have "from_hex ''#1a2b3c'' = Inr (Color 26 43 60)"
    by (simp add: color_eval)
  ultimately show ?thesis by auto
qed

section \<open>Scales\<close>

subsection \<open>Construction\<close>

lemma stop_value_eq: "stop_value = fst"
  by (rule ext) (simp add: stop_value_def)

lemma convert_stops_Cons:
  "convert_stops ((v, c, s) # it) = Inr ss \<longleftrightarrow>
     (\<exists>h col ss'. c = Some h \<and> from_hex h = Inr col \<and> convert_stops it = Inr ss'
        \<and> ss = (v, Some col, s) # ss')"
  by (auto split: option.splits sum.splits)

lemma convert_stops_values:
  "convert_stops it = Inr ss \<Longrightarrow> map stop_value ss = map fst it"
proof (induction it arbitrary: ss)
  case Nil
  then show ?case by simp
next
  case (Cons a it)
  obtain v c s where a: "a = (v, c, s)" by (cases a) auto
  from Cons.prems obtain col ss' where ss': "convert_stops it = Inr ss'"
    and ss: "ss = (v, Some col, s) # ss'"
    unfolding a convert_stops_Cons by blast
  have "map stop_value ss' = map fst it" by (rule Cons.IH[OF ss'])
  then show ?case by (simp add: ss a stop_value_eq)
qed

lemma parses_color_iff:
  "parses_color c \<longleftrightarrow> (\<exists>h col. c = Some h \<and> from_hex h = Inr col)"
  by (auto simp: parses_color_def split: option.splits sum.splits)

lemma convert_stops_succeeds:
  "(\<exists>ss. convert_stops it = Inr ss) \<longleftrightarrow> list_all (\<lambda>i. parses_color (item_color i)) it"
proof (induction it)
  case Nil
  then show ?case by simp
next
  case (Cons a it)
  obtain v c s where a: "a = (v, c, s)" by (cases a) auto
  have "(\<exists>ss. convert_stops (a # it) = Inr ss) \<longleftrightarrow>
          parses_color c \<and> (\<exists>ss'. convert_stops it = Inr ss')"
    unfolding a convert_stops_Cons parses_color_iff by blast
  then show ?case
    using Cons.IH by (simp add: a item_color_def)
qed

text \<open>Every converted stop is the stop of its item.\<close>

lemma convert_stops_items:
  "convert_stops it = Inr ss \<Longrightarrow> list_all2 stop_of_item it ss"
proof (induction it arbitrary: ss)
  case Nil
  then show ?case by simp
next
  case (Cons a it)
  obtain v c s where a: "a = (v, c, s)" by (cases a) auto
  from Cons.prems obtain h col ss' where c: "c = Some h" and h: "from_hex h = Inr col"
    and ss': "convert_stops it = Inr ss'" and ss: "ss = (v, Some col, s) # ss'"
    unfolding a convert_stops_Cons by blast
  have "stop_of_item a (v, Some col, s)"
    by (simp add: stop_of_item_def a c h item_color_def stop_value_def stop_color_def stop_size_def)
  moreover have "list_all2 stop_of_item it ss'" by (rule Cons.IH[OF ss'])
  ultimately show ?case by (simp add: ss)
qed

text \<open>Sorting keeps every stop, as often as it occurs.\<close>

lemma count_list_insort_key:
  "count_list (insort_key f x xs) y = count_list (x # xs) y"
  by (induction xs) auto

lemma count_list_sort_key:
  "count_list (sort_key f xs) y = count_list xs y"
  by (induction xs) (simp_all add: count_list_insort_key)

text \<open>
  Claim C2, as the source has it. The constructor checks neither the number of stops nor
  whether color and size are present on all stops or on none. Whenever the color of every
  item is a string that \<open>from_hex\<close> accepts, whatever the number of items and whatever their
  sizes, the construction succeeds; the stored stops are the stops of the items (value,
  parsed color, size), each as often as it is given, sorted ascending by value.
\<close>

theorem Scale_init_unvalidated:
  assumes "list_all (\<lambda>i. parses_color (item_color i)) it"
  shows "\<exists>sc conv. Scale_init it ua = Inr sc \<and> list_all2 stop_of_item it conv
           \<and> (\<forall>st. count_list (stops sc) st = count_list conv st)
           \<and> length (stops sc) = length it
           \<and> sorted (map stop_value (stops sc)) \<and> use_abs sc = ua"
proof -
  from assms obtain conv where conv: "convert_stops it = Inr conv"
    using convert_stops_succeeds by blast
  define sc where "sc = \<lparr>stops = sort_key stop_value conv, use_abs = ua\<rparr>"
  have 1: "Scale_init it ua = Inr sc" by (simp add: Scale_init_def conv sc_def)
  have 2: "list_all2 stop_of_item it conv" by (rule convert_stops_items[OF conv])
  have 3: "\<forall>st. count_list (stops sc) st = count_list conv st"
    by (simp add: sc_def count_list_sort_key)
  have "length conv = length it" using 2 by (simp add: list_all2_lengthD)
  then have 4: "length (stops sc) = length it" by (simp add: sc_def)
  have 5: "sorted (map stop_value (stops sc))" by (simp add: sc_def)
  have 6: "use_abs sc = ua" by (simp add: sc_def)
  from 1 2 3 4 5 6 show ?thesis by blast
qed

text \<open>Two stops given in descending order, only one of them with a size.\<close>

theorem Scale_init_unvalidated_witness:
  "list_all (\<lambda>i. parses_color (item_color i)) [(7, Some ''#ff0000'', None), (2, Some ''#0000ff'', Some 4)]
   \<and> Scale_init [(7, Some ''#ff0000'', None), (2, Some ''#0000ff'', Some 4)] True =
       Inr \<lparr>stops = [(2, Some (Color 0 0 255), Some 4), (7, Some (Color 255 0 0), None)], use_abs = True\<rparr>"
proof -
  have h: "list_all (\<lambda>i. parses_color (item_color i))
             [(7, Some ''#ff0000'', None), (2, Some ''#0000ff'', Some 4)]"
    by (simp add: parses_color_def item_color_def color_eval)
  have e: "Scale_init [(7, Some ''#ff0000'', None), (2, Some ''#0000ff'', Some 4)] True =
       Inr \<lparr>stops = [(2, Some (Color 0 0 255), Some 4), (7, Some (Color 255 0 0), None)], use_abs = True\<rparr>"
    by (simp add: Scale_init_def stop_value_def color_eval)
  show ?thesis
    using Scale_init_unvalidated[OF h, of True] h e by simp
qed

text \<open>Claim C2 as stated fails: a scale with a single stop is constructed.\<close>

theorem Scale_init_single_stop:
  "Scale_init [(0, Some ''#c8c8c8'', Some 12)] False =
     Inr \<lparr>stops = [(0, Some (Color 200 200 200), Some 12)], use_abs = False\<rparr>"
  by (simp add: Scale_init_def color_eval)

subsection \<open>Styling\<close>

text \<open>
  Claim C1. Between two stops that both define a size, the size is said to be the blend
  of the two sizes. The source tests the sizes for truth, so a stop of size 0 counts as a
  stop without size: halfway between a stop of size 0 and a stop of size 10 the color is
  blended and the size is absent, where the claim gives 5.
\<close>

theorem style_zero_size:
  "Scale_init [(0, Some ''#000000'', Some 0), (10, Some ''#ffffff'', Some 10)] False =
     Inr \<lparr>stops = [(0, Some (Color 0 0 0), Some 0), (10, Some (Color 255 255 255), Some 10)],
          use_abs = False\<rparr>
   \<and> style \<lparr>stops = [(0, Some (Color 0 0 0), Some 0), (10, Some (Color 255 255 255), Some 10)],
          use_abs = False\<rparr> 5 = Inr (Some (Color (255 / 2) (255 / 2) (255 / 2)), None)"
  by (simp add: Scale_init_def color_eval style_def stop_value_def stop_color_def stop_size_def
      truthy_color_def truthy_num_def Color_add_def Color_rmul_def Color_mul_def)

section \<open>The map model\<close>

subsection \<open>Normalization of segments\<close>

lemma map_result_Inr_set:
  "map_result f xs = Inr ys \<Longrightarrow> y \<in> set ys \<Longrightarrow> \<exists>x\<in>set xs. f x = Inr y"
proof (induction xs arbitrary: ys)
  case Nil
  then show ?case by simp
next
  case (Cons x xs)
  from Cons.prems(1) obtain z zs where fx: "f x = Inr z" and r: "map_result f xs = Inr zs"
    and ys: "ys = z # zs"
    by (auto split: sum.splits)
  show ?case
  proof (cases "y = z")
    case True
    then show ?thesis using fx by auto
  next
    case False
    then have "y \<in> set zs" using Cons.prems(2) ys by simp
    then show ?thesis using Cons.IH[OF r] by auto
  qed
qed

lemma MapSegment_init_normalized:
  assumes "MapSegment_init st rv sj tbl = Inr seg"
  shows "\<exists>fn tn. tbl (sj_from_node_id sj) = Some fn \<and> tbl (sj_to_node_id sj) = Some tn \<and>
           from_node seg = (if is_metabolite fn then tn else fn) \<and>
           to_node seg = (if is_metabolite fn then fn else tn) \<and>
           b1 seg = (if is_metabolite fn then sj_b2 sj else sj_b1 sj) \<and>
           b2 seg = (if is_metabolite fn then sj_b1 sj else sj_b2 sj)"
proof -
  obtain fn where fn: "tbl (sj_from_node_id sj) = Some fn"
    using assms by (cases "tbl (sj_from_node_id sj)") (simp_all add: MapSegment_init_def)
  obtain tn where tn: "tbl (sj_to_node_id sj) = Some tn"
    using assms fn by (cases "tbl (sj_to_node_id sj)") (simp_all add: MapSegment_init_def)
  have "from_node seg = (if is_metabolite fn then tn else fn) \<and>
           to_node seg = (if is_metabolite fn then fn else tn) \<and>
           b1 seg = (if is_metabolite fn then sj_b2 sj else sj_b1 sj) \<and>
           b2 seg = (if is_metabolite fn then sj_b1 sj else sj_b2 sj)"
    using assms fn tn
    by (auto simp: MapSegment_init_def Let_def split: option.splits if_splits)
  with fn tn show ?thesis by blast
qed


lemma MapSegment_init_derived:
  assumes "MapSegment_init st rv sj tbl = Inr seg"
  shows "if is_metabolite (to_node seg)
         then metabolite_id seg = Some (met_id (to_node seg)) \<and>
              count seg = st (met_id (to_node seg)) \<and> count seg \<noteq> None \<and>
              has_arrow seg = (the (count seg) > 0 \<or> rv)
         else metabolite_id seg = None \<and> count seg = None \<and> \<not> has_arrow seg"
  using assms
  by (auto simp: MapSegment_init_def Let_def split: option.splits if_splits)

lemma MapReaction_init_segments:
  assumes "MapReaction_init rj tbl = Inr rxn" "seg \<in> set (segments rxn)"
  shows "\<exists>sj\<in>snd ` set (rj_segments rj).
           MapSegment_init (dict_of (rj_metabolites rj)) (rj_reversibility rj) sj tbl = Inr seg"
proof -
  from assms(1) obtain segs where
    m: "map_result (\<lambda>sj. MapSegment_init (dict_of (rj_metabolites rj)) (rj_reversibility rj) sj tbl)
          (map snd (rj_segments rj)) = Inr segs"
    and "segments rxn = segs"
    by (auto simp: MapReaction_init_def Let_def split: sum.splits)
  then have "seg \<in> set segs" using assms(2) by simp
  from map_result_Inr_set[OF m this] show ?thesis by auto
qed

lemma EscherMap_init_reactions:
  assumes "EscherMap_init mj w h rs ms = Inr m" "rxn \<in> set (reactions m)"
  shows "\<exists>rj\<in>snd ` set (mj_reactions mj). MapReaction_init rj (node_table mj) = Inr rxn"
proof -
  from assms(1) obtain rxns where
    m: "map_result (\<lambda>(reaction_id, rj). MapReaction_init rj (node_table mj)) (mj_reactions mj) = Inr rxns"
    and "reactions m = rxns"
    by (auto simp: EscherMap_init_def Let_def split: sum.splits)
  then have "rxn \<in> set rxns" using assms(2) by simp
  from map_result_Inr_set[OF m this] show ?thesis by force
qed

text \<open>
  Claim C3. After construction, whenever a metabolite node is an endpoint of a segment of
  a reaction, the \<open>to\<close> endpoint of the segment is a metabolite: every segment is a
  segment of the document whose two node ids are in the node table, with \<open>from\<close> and \<open>to\<close>
  and the control points \<open>b1\<close> and \<open>b2\<close> swapped exactly when the \<open>from\<close> node of the document
  is a metabolite. For a segment between a metabolite and a node that is not one, the
  metabolite is the \<open>to\<close> endpoint.
\<close>

theorem segments_normalized:
  assumes "EscherMap_init mj w h rs ms = Inr m"
    and "rxn \<in> set (reactions m)" and "seg \<in> set (segments rxn)"
  shows "(is_metabolite (from_node seg) \<or> is_metabolite (to_node seg) \<longrightarrow> is_metabolite (to_node seg))
       \<and> (\<exists>rj\<in>snd ` set (mj_reactions mj). \<exists>sj\<in>snd ` set (rj_segments rj). \<exists>fn tn.
             node_table mj (sj_from_node_id sj) = Some fn \<and>
             node_table mj (sj_to_node_id sj) = Some tn \<and>
             from_node seg = (if is_metabolite fn then tn else fn) \<and>
             to_node seg = (if is_metabolite fn then fn else tn) \<and>
             b1 seg = (if is_metabolite fn then sj_b2 sj else sj_b1 sj) \<and>
             b2 seg = (if is_metabolite fn then sj_b1 sj else sj_b2 sj))"
proof -
  from EscherMap_init_reactions[OF assms(1,2)] obtain rj where
    rj: "rj \<in> snd ` set (mj_reactions mj)" and r: "MapReaction_init rj (node_table mj) = Inr rxn"
    by blast
  from MapReaction_init_segments[OF r assms(3)] obtain sj where
    sj: "sj \<in> snd ` set (rj_segments rj)"
    and s: "MapSegment_init (dict_of (rj_metabolites rj)) (rj_reversibility rj) sj (node_table mj) = Inr seg"
    by blast
  from MapSegment_init_normalized[OF s] obtain fn tn where
    n: "node_table mj (sj_from_node_id sj) = Some fn" "node_table mj (sj_to_node_id sj) = Some tn"
      "from_node seg = (if is_metabolite fn then tn else fn)"
      "to_node seg = (if is_metabolite fn then fn else tn)"
      "b1 seg = (if is_metabolite fn then sj_b2 sj else sj_b1 sj)"
      "b2 seg = (if is_metabolite fn then sj_b1 sj else sj_b2 sj)"
    by blast
  have "is_metabolite (from_node seg) \<or> is_metabolite (to_node seg) \<longrightarrow> is_metabolite (to_node seg)"
    using n(3,4) by (auto split: if_splits)
  then show ?thesis using rj sj n by blast
qed

subsection \<open>Evaluating the constructor\<close>

lemma dict_of_fold: "fold (\<lambda>(k, v) m. m(k \<mapsto> v)) kvs m0 = m0 ++ map_of (rev kvs)"
  by (induction kvs arbitrary: m0)
     (auto simp: map_add_upd_left fun_eq_iff map_add_def split: option.splits)

lemma dict_of_apply: "dict_of kvs k = map_of (rev kvs) k"
  by (simp add: dict_of_def dict_of_fold)

lemmas doc_eval = EscherMap_init_def node_table_def dict_of_apply make_node_def
  MapMetabolite_init_def MapNode_init_def MapReaction_init_def MapSegment_init_def

lemma double_product_init:
  "EscherMap_init double_product_doc ''200'' ''100'' None None = Inr double_product_map"
  by (simp add: double_product_doc_def double_product_map_def double_product_reaction_def
      double_product_segment_def doc_eval)

text \<open>The document names the metabolite as \<open>from\<close>; the segment has it as \<open>to\<close>.\<close>

theorem segments_normalized_witness:
  "EscherMap_init double_product_doc ''200'' ''100'' None None = Inr double_product_map
   \<and> double_product_reaction \<in> set (reactions double_product_map)
   \<and> double_product_segment \<in> set (segments double_product_reaction)
   \<and> to_node double_product_segment = MapMetabolite (80, 0) ''A'' True (80, 30)
   \<and> is_metabolite (to_node double_product_segment)"
proof -
  have a: "EscherMap_init double_product_doc ''200'' ''100'' None None = Inr double_product_map"
    by (rule double_product_init)
  have b: "double_product_reaction \<in> set (reactions double_product_map)"
    by (simp add: double_product_map_def)
  have c: "double_product_segment \<in> set (segments double_product_reaction)"
    by (simp add: double_product_reaction_def)
  have t: "to_node double_product_segment = MapMetabolite (80, 0) ''A'' True (80, 30)"
    by (simp add: double_product_segment_def)
  have imp: "is_metabolite (from_node double_product_segment) \<or> is_metabolite (to_node double_product_segment)
          \<longrightarrow> is_metabolite (to_node double_product_segment)"
    using segments_normalized[OF a b c] by (rule conjunct1)
  have q: "is_metabolite (to_node double_product_segment)" by (simp add: t)
  have m: "is_metabolite (to_node double_product_segment)"
    by (rule mp[OF imp disjI2[OF q]])
  show ?thesis by (intro conjI a b c t m)
qed

section \<open>Rendering\<close>

subsection \<open>Elements\<close>

lemma map_of_dict_set: "map_of (dict_set kvs k v) k' = (if k' = k then Some v else map_of kvs k')"
  by (induction kvs) auto

lemma attr_el_set: "attr (el_set e k v) k' = (if k' = k then Some v else attr e k')"
  by (simp add: attr_def el_set_def map_of_dict_set)

lemma el_set_tag [simp]: "el_tag (el_set e k v) = el_tag e"
  by (simp add: el_set_def)

lemma el_set_children [simp]: "el_children (el_set e k v) = el_children e"
  by (simp add: el_set_def)

lemma el_extend_attrib [simp]: "el_attrib (el_extend e cs) = el_attrib e"
  unfolding el_extend_def by (induction cs arbitrary: e) (simp_all add: el_append_def)

lemma el_extend_Nil [simp]: "el_extend e [] = e"
  by (simp add: el_extend_def)

lemma override_arc_tag: "el_tag (override_arc color sz direction seg arc) = el_tag arc"
  by (simp add: override_arc_def Let_def split: option.splits)

lemma override_arc_children:
  "el_children (override_arc color sz direction seg arc) = el_children arc"
  by (simp add: override_arc_def Let_def split: option.splits)

subsection \<open>Segments\<close>

lemma segment_path_tag [simp]: "el_tag (segment_path seg e) = ''path''"
  by (simp add: segment_path_def Let_def)

lemma segment_path_children [simp]: "el_children (segment_path seg e) = []"
  by (simp add: segment_path_def Let_def)

lemma MapSegment_to_svg_metabolite:
  assumes "MapSegment_to_svg seg = Inr el" and "metabolite_id seg = Some mid"
  shows "\<exists>c r. count seg = Some c \<and> MapMetabolite_size (to_node seg) = Inr r \<and> seg_l seg \<noteq> 0 \<and>
           el = (if \<bar>c\<bar> = 1 then segment_path seg (new_end seg r)
                 else Element ''g'' [] None
                        [segment_path seg (new_end seg r), stoich_label seg (new_end seg r) \<bar>c\<bar>])"
proof -
  obtain r where r: "MapMetabolite_size (to_node seg) = Inr r"
    using assms by (cases "MapMetabolite_size (to_node seg)") (simp_all add: MapSegment_to_svg_def)
  have nz: "seg_l seg \<noteq> 0"
    using assms r by (cases "seg_l seg = 0") (simp_all add: MapSegment_to_svg_def)
  obtain c where c: "count seg = Some c"
    using assms r nz by (cases "count seg") (simp_all add: MapSegment_to_svg_def)
  have "el = (if \<bar>c\<bar> = 1 then segment_path seg (new_end seg r)
              else Element ''g'' [] None
                     [segment_path seg (new_end seg r), stoich_label seg (new_end seg r) \<bar>c\<bar>])"
    using assms r nz c by (simp add: MapSegment_to_svg_def split: if_splits)
  with c r nz show ?thesis by blast
qed

lemma render_segment_Inr:
  assumes "render_segment color sz direction seg = Inr el"
  shows "\<exists>arc. MapSegment_to_svg seg = Inr arc \<and> el = override_arc color sz direction seg arc"
  using assms by (cases "MapSegment_to_svg seg") (simp_all add: render_segment_def)

text \<open>
  Claim C8, as the source has it. A segment that ends at a metabolite and is rendered
  without a direction override has a stoichiometry label exactly when the absolute value of
  its count differs from 1 (not only when it exceeds 1): with a count of 1 or -1 the
  primitive is the bare path; otherwise it is a group of the path and one text element of
  class \<^verbatim>\<open>label stoich\<close>, placed at the new end point plus \<open>(dy / L, - dx / L) * 24\<close>, whose
  text is the absolute value of the count.
\<close>

theorem stoich_label_rule:
  assumes "render_segment color sz None seg = Inr el" and "metabolite_id seg = Some mid"
  shows "\<exists>c r. count seg = Some c \<and> MapMetabolite_size (to_node seg) = Inr r \<and>
           (if \<bar>c\<bar> = 1 then el_tag el = ''path'' \<and> el_children el = []
            else el_tag el = ''g'' \<and>
                 el_children el =
                   [segment_path seg (new_end seg r),
                    Element ''text''
                      [(''class'', Str ''label stoich''),
                       (''x'', PyStr (fst (new_end seg r) + seg_dy seg / seg_l seg * 24)),
                       (''y'', PyStr (snd (new_end seg r) - seg_dx seg / seg_l seg * 24))]
                      (Some (PyStr \<bar>c\<bar>)) []])"
proof -
  from render_segment_Inr[OF assms(1)] obtain arc where
    arc: "MapSegment_to_svg seg = Inr arc" and el: "el = override_arc color sz None seg arc"
    by blast
  from MapSegment_to_svg_metabolite[OF arc assms(2)] obtain c r where
    c: "count seg = Some c" and r: "MapMetabolite_size (to_node seg) = Inr r"
    and a: "arc = (if \<bar>c\<bar> = 1 then segment_path seg (new_end seg r)
                 else Element ''g'' [] None
                        [segment_path seg (new_end seg r), stoich_label seg (new_end seg r) \<bar>c\<bar>])"
    by blast
  have t: "el_tag el = el_tag arc" by (simp add: el override_arc_tag)
  have ch: "el_children el = el_children arc" by (simp add: el override_arc_children)
  have "if \<bar>c\<bar> = 1 then el_tag el = ''path'' \<and> el_children el = []
        else el_tag el = ''g'' \<and>
                 el_children el =
                   [segment_path seg (new_end seg r),
                    Element ''text''
                      [(''class'', Str ''label stoich''),
                       (''x'', PyStr (fst (new_end seg r) + seg_dy seg / seg_l seg * 24)),
                       (''y'', PyStr (snd (new_end seg r) - seg_dx seg / seg_l seg * 24))]
                      (Some (PyStr \<bar>c\<bar>)) []]"
    by (simp add: t ch a stoich_label_def Let_def)
  with c r show ?thesis by blast
qed

subsection \<open>The example segment\<close>

lemma sqrt_6400: "sqrt 6400 = 80"
  by (rule real_sqrt_unique) simp_all

lemma double_product_fields:
  "from_node double_product_segment = MapNode (0, 0)"
  "to_node double_product_segment = MapMetabolite (80, 0) ''A'' True (80, 30)"
  "b1 double_product_segment = None" "b2 double_product_segment = None"
  "metabolite_id double_product_segment = Some ''A''"
  "count double_product_segment = Some 2" "has_arrow double_product_segment"
  by (simp_all add: double_product_segment_def)

lemma half_product_fields:
  "from_node half_product_segment = MapNode (0, 0)"
  "to_node half_product_segment = MapMetabolite (80, 0) ''A'' True (80, 30)"
  "b1 half_product_segment = None" "b2 half_product_segment = None"
  "metabolite_id half_product_segment = Some ''A''"
  "count half_product_segment = Some (1 / 2)" "has_arrow half_product_segment"
  by (simp_all add: half_product_segment_def double_product_segment_def)

text \<open>
  The geometry of a segment from the origin to a primary metabolite at \<open>(80, 0)\<close>, with an
  arrow: the length is 80, the trimmed length 40, the new end point \<open>(40, 0)\<close>.
\<close>

lemma example_geometry:
  assumes "from_node seg = MapNode (0, 0)"
    and "to_node seg = MapMetabolite (80, 0) ''A'' True (80, 30)"
    and "b2 seg = None" and "has_arrow seg"
  shows "approach_point seg = (0, 0)" and "seg_dx seg = 80" and "seg_dy seg = 0"
    and "seg_l seg = 80" and "new_end seg 20 = (40, 0)"
proof -
  show a: "approach_point seg = (0, 0)" by (simp add: approach_point_def assms)
  show dx: "seg_dx seg = 80" by (simp add: seg_dx_def a assms)
  show dy: "seg_dy seg = 0" by (simp add: seg_dy_def a assms)
  show l: "seg_l seg = 80" by (simp add: seg_l_def dx dy sqrt_6400)
  have t: "trimmed_l seg 20 = 40" by (simp add: trimmed_l_def l assms)
  show "new_end seg 20 = (40, 0)" by (simp add: new_end_def t l a dx dy)
qed

lemmas double_product_geometry =
  example_geometry[OF double_product_fields(1) double_product_fields(2) double_product_fields(4)
    double_product_fields(7)]

lemmas half_product_geometry =
  example_geometry[OF half_product_fields(1) half_product_fields(2) half_product_fields(4)
    half_product_fields(7)]

lemma double_product_segment_svg:
  "MapSegment_to_svg double_product_segment =
     Inr (Element ''g'' [] None
           [Element ''path''
              [(''d'', PathLine (0, 0) (40, 0)), (''marker-end'', Str ''url(#arrowhead)'')] None [],
            Element ''text''
              [(''class'', Str ''label stoich''), (''x'', PyStr 40), (''y'', PyStr (- 24))]
              (Some (PyStr 2)) []])"
  by (simp add: MapSegment_to_svg_def double_product_fields double_product_geometry
      stoich_label_def segment_path_def)

lemma half_product_segment_svg:
  "MapSegment_to_svg half_product_segment =
     Inr (Element ''g'' [] None
           [Element ''path''
              [(''d'', PathLine (0, 0) (40, 0)), (''marker-end'', Str ''url(#arrowhead)'')] None [],
            Element ''text''
              [(''class'', Str ''label stoich''), (''x'', PyStr 40), (''y'', PyStr (- 24))]
              (Some (PyStr (1 / 2))) []])"
  by (simp add: MapSegment_to_svg_def half_product_fields half_product_geometry
      stoich_label_def segment_path_def)

text \<open>A count of 2: the segment is a group of the path and the label \<open>2\<close>.\<close>

theorem stoich_label_rule_witness:
  "render_segment None None None double_product_segment =
     Inr (Element ''g'' [] None
           [Element ''path''
              [(''d'', PathLine (0, 0) (40, 0)), (''marker-end'', Str ''url(#arrowhead)'')] None [],
            Element ''text''
              [(''class'', Str ''label stoich''), (''x'', PyStr 40), (''y'', PyStr (- 24))]
              (Some (PyStr 2)) []])
   \<and> metabolite_id double_product_segment = Some ''A''
   \<and> count double_product_segment = Some 2"
proof -
  have r: "render_segment None None None double_product_segment =
     Inr (Element ''g'' [] None
           [Element ''path''
              [(''d'', PathLine (0, 0) (40, 0)), (''marker-end'', Str ''url(#arrowhead)'')] None [],
            Element ''text''
              [(''class'', Str ''label stoich''), (''x'', PyStr 40), (''y'', PyStr (- 24))]
              (Some (PyStr 2)) []])"
    by (simp add: render_segment_def double_product_segment_svg override_arc_def)
  have m: "metabolite_id double_product_segment = Some ''A''"
    by (rule double_product_fields)
  have c: "count double_product_segment = Some 2"
    by (rule double_product_fields)
  show ?thesis using stoich_label_rule[OF r m] r m c by simp
qed

text \<open>
  Claim C8 as stated fails for a coefficient below 1: with a count of one half the absolute
  value is not greater than 1, and the label is emitted.
\<close>

theorem stoich_label_below_one:
  "render_segment None None None half_product_segment =
     Inr (Element ''g'' [] None
           [Element ''path''
              [(''d'', PathLine (0, 0) (40, 0)), (''marker-end'', Str ''url(#arrowhead)'')] None [],
            Element ''text''
              [(''class'', Str ''label stoich''), (''x'', PyStr 40), (''y'', PyStr (- 24))]
              (Some (PyStr (1 / 2))) []])
   \<and> metabolite_id half_product_segment = Some ''A''
   \<and> count half_product_segment = Some (1 / 2) \<and> \<not> 1 < \<bar>1 / 2 :: real\<bar>"
  by (simp add: render_segment_def half_product_segment_svg override_arc_def half_product_fields)

subsection \<open>The direction of a reaction\<close>

text \<open>For a segment with a count of 1 or -1 the primitive is the path, and the rule holds.\<close>

lemma direction_rule_unit_count:
  assumes "render_segment color sz (Some dir) seg = Inr el"
    and "metabolite_id seg = Some mid" and "count seg = Some c" and "\<bar>c\<bar> = 1"
  shows "el_tag el = ''path'' \<and>
         attr el ''marker-end'' = Some (Str (if 0 < sgn c * sgn dir then ''url(#arrowhead)'' else []))"
proof -
  from render_segment_Inr[OF assms(1)] obtain arc where
    arc: "MapSegment_to_svg seg = Inr arc" and el: "el = override_arc color sz (Some dir) seg arc"
    by blast
  from MapSegment_to_svg_metabolite[OF arc assms(2)] assms(3,4) obtain r where
    a: "arc = segment_path seg (new_end seg r)"
    by auto
  have s: "0 < sgn c * sgn dir \<longleftrightarrow> 0 < c * dir"
    by (simp add: sgn_if zero_less_mult_iff)
  have "el_tag el = ''path''" by (simp add: el override_arc_tag a)
  moreover have "attr el ''marker-end'' = Some (Str (if 0 < c * dir then ''url(#arrowhead)'' else []))"
    by (simp add: el override_arc_def Let_def assms(3) attr_el_set split: option.splits)
  ultimately show ?thesis by (simp add: s)
qed

text \<open>
  Claim C4. With a direction value present, a segment whose count and direction disagree
  in sign is said to have its arrowhead suppressed. The source sets the marker on the
  primitive that the segment returns; for a count other than 1 and -1 this is the group that
  wraps the path and the stoichiometry label. For a product of count 2 and a direction of
  -1 the empty marker lands on the group, and the path inside keeps the arrowhead that the
  static derivation attached to it.
\<close>

theorem direction_on_group:
  "MapReaction_to_svg None double_product_reaction None (Some (- 1)) =
     Inr (Element ''g'' [(''name'', Str ''R'')] None
           [Element ''g'' [(''marker-end'', Str [])] None
              [Element ''path''
                 [(''d'', PathLine (0, 0) (40, 0)), (''marker-end'', Str ''url(#arrowhead)'')]
                 None [],
               Element ''text''
                 [(''class'', Str ''label stoich''), (''x'', PyStr 40), (''y'', PyStr (- 24))]
                 (Some (PyStr 2)) []],
            Element ''text'' [(''class'', Str ''label''), (''x'', PyStr 50), (''y'', PyStr 10)]
              (Some (Str ''R'')) []])"
proof -
  have s: "render_segment None None (Some (- 1)) double_product_segment =
     Inr (Element ''g'' [(''marker-end'', Str [])] None
              [Element ''path''
                 [(''d'', PathLine (0, 0) (40, 0)), (''marker-end'', Str ''url(#arrowhead)'')]
                 None [],
               Element ''text''
                 [(''class'', Str ''label stoich''), (''x'', PyStr 40), (''y'', PyStr (- 24))]
                 (Some (PyStr 2)) []])"
    by (simp add: render_segment_def double_product_segment_svg override_arc_def el_set_def
        double_product_fields)
  show ?thesis
    by (simp add: MapReaction_to_svg_def reaction_style_def double_product_reaction_def s
        el_extend_def el_append_def)
qed

text \<open>Without a direction mapping, the values mapping serves as the direction mapping.\<close>

lemma render_reactions_default_direction:
  "render_reactions m (Some rd) None = render_reactions m (Some rd) (Some rd)"
  by (simp add: render_reactions_def)

text \<open>
  Claim C10. With a values mapping and no direction mapping, every metabolite segment of a
  reaction that has a value is said to carry an arrowhead exactly when count times value is
  positive. The values mapping is used as the direction mapping, but the marker is set on
  the primitive of the segment: for a product of count 2 and a value of -1 the product is
  negative, the empty marker lands on the wrapping group, and the path keeps its arrowhead.
\<close>

theorem values_as_direction_on_group:
  "render_reactions double_product_map (Some [(''R'', - 1)]) None =
     Inr [Element ''g'' [(''name'', Str ''R'')] None
           [Element ''g'' [(''marker-end'', Str [])] None
              [Element ''path''
                 [(''d'', PathLine (0, 0) (40, 0)), (''marker-end'', Str ''url(#arrowhead)'')]
                 None [],
               Element ''text''
                 [(''class'', Str ''label stoich''), (''x'', PyStr 40), (''y'', PyStr (- 24))]
                 (Some (PyStr 2)) []],
            Element ''text'' [(''class'', Str ''label''), (''x'', PyStr 50), (''y'', PyStr 10)]
              (Some (Str ''R'')) []]]"
proof -
  have s: "render_segment None None (Some (- 1)) double_product_segment =
     Inr (Element ''g'' [(''marker-end'', Str [])] None
              [Element ''path''
                 [(''d'', PathLine (0, 0) (40, 0)), (''marker-end'', Str ''url(#arrowhead)'')]
                 None [],
               Element ''text''
                 [(''class'', Str ''label stoich''), (''x'', PyStr 40), (''y'', PyStr (- 24))]
                 (Some (PyStr 2)) []])"
    by (simp add: render_segment_def double_product_segment_svg override_arc_def el_set_def
        double_product_fields)
  have r: "MapReaction_to_svg None double_product_reaction (Some (- 1)) (Some (- 1)) =
     Inr (Element ''g'' [(''name'', Str ''R'')] None
           [Element ''g'' [(''marker-end'', Str [])] None
              [Element ''path''
                 [(''d'', PathLine (0, 0) (40, 0)), (''marker-end'', Str ''url(#arrowhead)'')]
                 None [],
               Element ''text''
                 [(''class'', Str ''label stoich''), (''x'', PyStr 40), (''y'', PyStr (- 24))]
                 (Some (PyStr 2)) []],
            Element ''text'' [(''class'', Str ''label''), (''x'', PyStr 50), (''y'', PyStr 10)]
              (Some (Str ''R'')) []])"
    by (simp add: MapReaction_to_svg_def reaction_style_def double_product_reaction_def s
        el_extend_def el_append_def)
  have i: "reaction_id double_product_reaction = ''R''"
    by (simp add: double_product_reaction_def)
  show ?thesis
    by (simp add: render_reactions_def double_product_map_def overlay_get_def i r)
qed

subsection \<open>The defaults of the groups\<close>

lemma reactions_group_attr:
  "attr (reactions_group rd) ''id'' = Some (Str ''reactions'')"
  "attr (reactions_group rd) ''stroke'' = Some (Str (if truthy_overlay rd then ''#eeeeee'' else RXN_STROKE))"
  "attr (reactions_group rd) ''stroke-width'' = Some (Str (if truthy_overlay rd then ''5'' else ''10''))"
  by (simp_all add: reactions_group_def attr_el_set Let_def) (simp_all add: attr_def)

lemma metabolites_group_attr:
  "attr (metabolites_group md) ''id'' = Some (Str ''metabolites'')"
  "attr (metabolites_group md) ''fill'' = Some (Str (if truthy_overlay md then ''#eeeeee'' else MET_FILL))"
  "attr (metabolites_group md) ''stroke'' = Some (Str (if truthy_overlay md then ''none'' else MET_STROKE))"
  by (simp_all add: metabolites_group_def attr_el_set Let_def) (simp_all add: attr_def)

lemma attr_el_extend [simp]: "attr (el_extend e cs) k = attr e k"
  by (simp add: attr_def)

lemma svg_document_groups:
  "svg_group ''reactions'' (svg_document m md rd rs ms) = Some (el_extend (reactions_group rd) rs)"
  "svg_group ''metabolites'' (svg_document m md rd rs ms) = Some (el_extend (metabolites_group md) ms)"
  using reactions_group_attr(1)[of rd] metabolites_group_attr(1)[of md]
  by (simp_all add: svg_group_def svg_document_def Let_def attr_def)

lemma truthy_overlay_iff: "truthy_overlay d \<longleftrightarrow> d \<noteq> None \<and> d \<noteq> Some []"
  by (simp add: truthy_overlay_def split: option.splits)

lemma EscherMap_to_svg_Inr:
  assumes "EscherMap_to_svg m md rd rdir = Inr svg"
  shows "\<exists>rs ms. render_reactions m rd rdir = Inr rs \<and> render_metabolites m md = Inr ms \<and>
           svg = svg_document m md rd rs ms"
  using assms by (auto simp: EscherMap_to_svg_def split: sum.splits)

text \<open>
  Claim C9, as the source has it. The source tests the mappings for truth. The reactions
  group has the lighter, thinner stroke exactly when a values mapping with at least one
  entry was given, and the standard stroke otherwise, also for an empty mapping and
  whatever the direction mapping is; the metabolites group has the faint fill and no stroke
  exactly when a metabolite mapping with at least one entry was given, and the standard
  fill and stroke otherwise.
\<close>

theorem group_defaults:
  assumes "EscherMap_to_svg m md rd rdir = Inr svg"
  shows "\<exists>R M. svg_group ''reactions'' svg = Some R \<and> svg_group ''metabolites'' svg = Some M \<and>
           attr R ''stroke'' = Some (Str (if rd \<noteq> None \<and> rd \<noteq> Some [] then ''#eeeeee'' else RXN_STROKE)) \<and>
           attr R ''stroke-width'' = Some (Str (if rd \<noteq> None \<and> rd \<noteq> Some [] then ''5'' else ''10'')) \<and>
           attr M ''fill'' = Some (Str (if md \<noteq> None \<and> md \<noteq> Some [] then ''#eeeeee'' else MET_FILL)) \<and>
           attr M ''stroke'' = Some (Str (if md \<noteq> None \<and> md \<noteq> Some [] then ''none'' else MET_STROKE))"
proof -
  from EscherMap_to_svg_Inr[OF assms] obtain rs ms where svg: "svg = svg_document m md rd rs ms"
    by blast
  have "svg_group ''reactions'' svg = Some (el_extend (reactions_group rd) rs)"
    "svg_group ''metabolites'' svg = Some (el_extend (metabolites_group md) ms)"
    by (simp_all add: svg svg_document_groups)
  moreover have "attr (el_extend (reactions_group rd) rs) ''stroke'' =
      Some (Str (if rd \<noteq> None \<and> rd \<noteq> Some [] then ''#eeeeee'' else RXN_STROKE))"
    "attr (el_extend (reactions_group rd) rs) ''stroke-width'' =
      Some (Str (if rd \<noteq> None \<and> rd \<noteq> Some [] then ''5'' else ''10''))"
    by (simp_all add: reactions_group_attr truthy_overlay_iff)
  moreover have "attr (el_extend (metabolites_group md) ms) ''fill'' =
      Some (Str (if md \<noteq> None \<and> md \<noteq> Some [] then ''#eeeeee'' else MET_FILL))"
    "attr (el_extend (metabolites_group md) ms) ''stroke'' =
      Some (Str (if md \<noteq> None \<and> md \<noteq> Some [] then ''none'' else MET_STROKE))"
    by (simp_all add: metabolites_group_attr truthy_overlay_iff)
  ultimately show ?thesis by blast
qed

lemma empty_map_svg:
  "EscherMap_to_svg empty_map md rd rdir = Inr (svg_document empty_map md rd [] [])"
  by (simp add: EscherMap_to_svg_def render_reactions_def render_metabolites_def empty_map_def)

theorem group_defaults_witness:
  "EscherMap_to_svg empty_map None (Some [(''R'', 1)]) None =
     Inr (svg_document empty_map None (Some [(''R'', 1)]) [] [])
   \<and> svg_group ''reactions'' (svg_document empty_map None (Some [(''R'', 1)]) [] []) =
       Some (Element ''g''
               [(''id'', Str ''reactions''), (''fill'', Str ''none''), (''stroke'', Str ''#eeeeee''),
                (''stroke-width'', Str ''5'')] None [])
   \<and> svg_group ''metabolites'' (svg_document empty_map None (Some [(''R'', 1)]) [] []) =
       Some (Element ''g''
               [(''id'', Str ''metabolites''), (''fill'', Str ''#e0865b''),
                (''stroke'', Str ''#a24510''), (''stroke-width'', Str ''2'')] None [])"
proof -
  have e: "EscherMap_to_svg empty_map None (Some [(''R'', 1)]) None =
     Inr (svg_document empty_map None (Some [(''R'', 1)]) [] [])"
    by (rule empty_map_svg)
  have r: "svg_group ''reactions'' (svg_document empty_map None (Some [(''R'', 1)]) [] []) =
       Some (Element ''g''
               [(''id'', Str ''reactions''), (''fill'', Str ''none''), (''stroke'', Str ''#eeeeee''),
                (''stroke-width'', Str ''5'')] None [])"
    by (simp add: svg_document_groups reactions_group_def truthy_overlay_def el_set_def)
  have m: "svg_group ''metabolites'' (svg_document empty_map None (Some [(''R'', 1)]) [] []) =
       Some (Element ''g''
               [(''id'', Str ''metabolites''), (''fill'', Str ''#e0865b''),
                (''stroke'', Str ''#a24510''), (''stroke-width'', Str ''2'')] None [])"
    by (simp add: svg_document_groups metabolites_group_def truthy_overlay_def MET_FILL_def
        MET_STROKE_def)
  show ?thesis using group_defaults[OF e] e r m by simp
qed

subsection \<open>An empty values mapping\<close>

lemma double_product_reactions_plain:
  "render_reactions double_product_map (Some []) None =
     Inr [Element ''g'' [(''name'', Str ''R'')] None
           [Element ''g'' [] None
              [Element ''path''
                 [(''d'', PathLine (0, 0) (40, 0)), (''marker-end'', Str ''url(#arrowhead)'')]
                 None [],
               Element ''text''
                 [(''class'', Str ''label stoich''), (''x'', PyStr 40), (''y'', PyStr (- 24))]
                 (Some (PyStr 2)) []],
            Element ''text'' [(''class'', Str ''label''), (''x'', PyStr 50), (''y'', PyStr 10)]
              (Some (Str ''R'')) []]]"
proof -
  have s: "render_segment None None None double_product_segment =
     Inr (Element ''g'' [] None
              [Element ''path''
                 [(''d'', PathLine (0, 0) (40, 0)), (''marker-end'', Str ''url(#arrowhead)'')]
                 None [],
               Element ''text''
                 [(''class'', Str ''label stoich''), (''x'', PyStr 40), (''y'', PyStr (- 24))]
                 (Some (PyStr 2)) []])"
    by (simp add: render_segment_def double_product_segment_svg override_arc_def)
  have r: "MapReaction_to_svg None double_product_reaction None None =
     Inr (Element ''g'' [(''name'', Str ''R'')] None
           [Element ''g'' [] None
              [Element ''path''
                 [(''d'', PathLine (0, 0) (40, 0)), (''marker-end'', Str ''url(#arrowhead)'')]
                 None [],
               Element ''text''
                 [(''class'', Str ''label stoich''), (''x'', PyStr 40), (''y'', PyStr (- 24))]
                 (Some (PyStr 2)) []],
            Element ''text'' [(''class'', Str ''label''), (''x'', PyStr 50), (''y'', PyStr 10)]
              (Some (Str ''R'')) []])"
    by (simp add: MapReaction_to_svg_def reaction_style_def double_product_reaction_def s
        el_extend_def el_append_def)
  have i: "reaction_id double_product_reaction = ''R''"
    by (simp add: double_product_reaction_def)
  show ?thesis
    by (simp add: render_reactions_def double_product_map_def overlay_get_def i r)
qed

lemma double_product_metabolites_plain:
  "render_metabolites double_product_map None =
     Inr [Element ''g'' [(''name'', Str ''A'')] None
           [Element ''circle'' [(''cx'', PyStr 80), (''cy'', PyStr 0), (''r'', PyStr 20)] None [],
            Element ''text'' [(''class'', Str ''label''), (''x'', PyStr 80), (''y'', PyStr 30)]
              (Some (Str ''A'')) []]]"
  by (simp add: render_metabolites_def double_product_map_def overlay_get_def
      MapMetabolite_to_svg_def metabolite_circle_def)

text \<open>
  Claim C9 as stated fails for a mapping without entries: a values mapping was supplied,
  and the reactions group has the standard stroke and width.
\<close>

theorem empty_overlay_standard:
  "EscherMap_to_svg double_product_map None (Some []) None =
     Inr (svg_document double_product_map None (Some [])
           [Element ''g'' [(''name'', Str ''R'')] None
              [Element ''g'' [] None
                 [Element ''path''
                    [(''d'', PathLine (0, 0) (40, 0)), (''marker-end'', Str ''url(#arrowhead)'')]
                    None [],
                  Element ''text''
                    [(''class'', Str ''label stoich''), (''x'', PyStr 40), (''y'', PyStr (- 24))]
                    (Some (PyStr 2)) []],
               Element ''text'' [(''class'', Str ''label''), (''x'', PyStr 50), (''y'', PyStr 10)]
                 (Some (Str ''R'')) []]]
           [Element ''g'' [(''name'', Str ''A'')] None
              [Element ''circle'' [(''cx'', PyStr 80), (''cy'', PyStr 0), (''r'', PyStr 20)] None [],
               Element ''text'' [(''class'', Str ''label''), (''x'', PyStr 80), (''y'', PyStr 30)]
                 (Some (Str ''A'')) []]])
   \<and> svg_group ''reactions''
        (svg_document double_product_map None (Some [])
           [Element ''g'' [(''name'', Str ''R'')] None
              [Element ''g'' [] None
                 [Element ''path''
                    [(''d'', PathLine (0, 0) (40, 0)), (''marker-end'', Str ''url(#arrowhead)'')]
                    None [],
                  Element ''text''
                    [(''class'', Str ''label stoich''), (''x'', PyStr 40), (''y'', PyStr (- 24))]
                    (Some (PyStr 2)) []],
               Element ''text'' [(''class'', Str ''label''), (''x'', PyStr 50), (''y'', PyStr 10)]
                 (Some (Str ''R'')) []]]
           [Element ''g'' [(''name'', Str ''A'')] None
              [Element ''circle'' [(''cx'', PyStr 80), (''cy'', PyStr 0), (''r'', PyStr 20)] None [],
               Element ''text'' [(''class'', Str ''label''), (''x'', PyStr 80), (''y'', PyStr 30)]
                 (Some (Str ''A'')) []]]) =
       Some (Element ''g''
               [(''id'', Str ''reactions''), (''fill'', Str ''none''), (''stroke'', Str ''#334e75''),
                (''stroke-width'', Str ''10'')] None
               [Element ''g'' [(''name'', Str ''R'')] None
                  [Element ''g'' [] None
                     [Element ''path''
                        [(''d'', PathLine (0, 0) (40, 0)),
                         (''marker-end'', Str ''url(#arrowhead)'')] None [],
                      Element ''text''
                        [(''class'', Str ''label stoich''), (''x'', PyStr 40),
                         (''y'', PyStr (- 24))] (Some (PyStr 2)) []],
                   Element ''text''
                     [(''class'', Str ''label''), (''x'', PyStr 50), (''y'', PyStr 10)]
                     (Some (Str ''R'')) []]])"
  by (simp add: EscherMap_to_svg_def double_product_reactions_plain double_product_metabolites_plain
      svg_document_groups reactions_group_def truthy_overlay_def RXN_STROKE_def el_extend_def
      el_append_def)

end
